theory Spec2Isabelle
  imports Complex_Main "HOL-Library.Word" "HOL-Library.AList"
begin

section \<open>The extraction client of the TypeScript SDK\<close>

text \<open>
  A shallow embedding of \<^verbatim>\<open>sdks/typescript/src/errors.ts\<close> and of the request
  lifecycle of \<^verbatim>\<open>sdks/typescript/src/client.ts\<close>: the error classes, the transport
  (\<^verbatim>\<open>request\<close>, \<^verbatim>\<open>handleErrorResponse\<close>), the request builder
  (\<^verbatim>\<open>buildFormData\<close>), the normalizers (\<^verbatim>\<open>transformExtractionResult\<close>,
  \<^verbatim>\<open>transformJobStatus\<close>) and the poll loop (\<^verbatim>\<open>waitForJob\<close>).

  Conventions. A thrown exception is the \<open>Inl\<close> of a sum. An optional field
  (\<^verbatim>\<open>f?: t\<close>) is an \<open>option\<close>. Values are taken at the types the source declares for
  them, but for the body of an error response, which may also be \<^verbatim>\<open>null\<close>; a
  \<^verbatim>\<open>number\<close> that is only copied is a real, a time in milliseconds is an integer. The fields of the wire interfaces carry a prefix (\<open>r_\<close>, \<open>m_\<close>, \<open>j_\<close>,
  \<open>e_\<close>), and so does a field of the client model whose name another record already
  has. The platform is explicit: the clock, the network and the log of requests are a
  \<open>world\<close> passed through the calls, and date parsing, the path functions and the
  timers are a record of functions.
\<close>

subsection \<open>errors.ts\<close>

datatype error_class =
  AutofillerError_class
| ValidationError_class
| AuthenticationError_class
| RateLimitError_class
| ExtractionError_class

text \<open>
  An instance of \<^verbatim>\<open>AutofillerError\<close> or of one of its subclasses: \<open>cls\<close> is the class
  that built it (what \<^verbatim>\<open>instanceof\<close> tests), the other fields are the properties the
  constructors set.
\<close>

record sdk_error =
  cls :: error_class
  name :: string
  message :: string
  code :: string

definition AutofillerError :: "string \<Rightarrow> string \<Rightarrow> sdk_error" where
  "AutofillerError msg c =
     \<lparr>cls = AutofillerError_class, name = ''AutofillerError'', message = msg, code = c\<rparr>"

definition ValidationError :: "string \<Rightarrow> sdk_error" where
  "ValidationError msg =
     (AutofillerError msg ''validation_error'')
       \<lparr>cls := ValidationError_class, name := ''ValidationError''\<rparr>"

definition AuthenticationError :: "string option \<Rightarrow> sdk_error" where
  "AuthenticationError msg =
     (AutofillerError (case msg of None \<Rightarrow> ''Invalid or missing API key'' | Some m \<Rightarrow> m)
        ''authentication_error'')
       \<lparr>cls := AuthenticationError_class, name := ''AuthenticationError''\<rparr>"

definition RateLimitError :: "string option \<Rightarrow> sdk_error" where
  "RateLimitError msg =
     (AutofillerError (case msg of None \<Rightarrow> ''Rate limit exceeded'' | Some m \<Rightarrow> m)
        ''rate_limit_exceeded'')
       \<lparr>cls := RateLimitError_class, name := ''RateLimitError''\<rparr>"

definition ExtractionError :: "string \<Rightarrow> string option \<Rightarrow> sdk_error" where
  "ExtractionError msg c =
     (AutofillerError msg (case c of None \<Rightarrow> ''extraction_failed'' | Some c' \<Rightarrow> c'))
       \<lparr>cls := ExtractionError_class, name := ''ExtractionError''\<rparr>"

subsection \<open>What a \<^verbatim>\<open>try\<close> block can catch\<close>

text \<open>
  A thrown value is an error of the SDK, another \<^verbatim>\<open>Error\<close> (its \<^verbatim>\<open>name\<close> and
  \<^verbatim>\<open>message\<close>), or a value that is no \<^verbatim>\<open>Error\<close>.
\<close>

datatype thrown =
  Thrown_sdk sdk_error
| Thrown_Error string string
| Thrown_value

subsection \<open>Numbers in template literals\<close>

definition digit_char :: "nat \<Rightarrow> char" where
  "digit_char d = ''0123456789'' ! d"

text \<open>The decimal digits of a natural number, as \<^verbatim>\<open>`${n}`\<close> prints an integer.\<close>

function string_of_nat :: "nat \<Rightarrow> string" where
  "string_of_nat n =
     (if n < 10 then [digit_char n]
      else string_of_nat (n div 10) @ [digit_char (n mod 10)])"
  by pat_completeness auto
termination
  by (relation "measure id") auto

declare string_of_nat.simps [simp del]

subsection \<open>Configuration and the constructor\<close>

text \<open>
  \<^verbatim>\<open>AutofillerConfig\<close> as a caller passes it. The interface declares \<^verbatim>\<open>apiKey\<close> a
  string, yet the constructor tests it, and the package's own example passes
  \<^verbatim>\<open>process.env.AUTOFILLER_API_KEY\<close>, which may be undefined: the field is an option.
\<close>

record AutofillerConfig =
  cfg_apiKey :: "string option"
  cfg_baseUrl :: "string option"
  cfg_timeout :: "int option"
  cfg_maxRetries :: "int option"

text \<open>\<^verbatim>\<open>Required<AutofillerConfig>\<close>, the private \<^verbatim>\<open>config\<close> of a client.\<close>

record ClientConfig =
  apiKey :: string
  baseUrl :: string
  timeout :: int
  maxRetries :: int

definition DEFAULT_BASE_URL :: string where
  "DEFAULT_BASE_URL = ''https://api.autofiller.dev/v1''"

definition DEFAULT_TIMEOUT :: int where
  "DEFAULT_TIMEOUT = 30000"

definition DEFAULT_MAX_RETRIES :: int where
  "DEFAULT_MAX_RETRIES = 3"

text \<open>
  The truth value of an optional string (undefined and the empty string are falsy), and
  the operator \<^verbatim>\<open>??\<close>.
\<close>

definition truthy :: "string option \<Rightarrow> bool" where
  "truthy s = (case s of None \<Rightarrow> False | Some v \<Rightarrow> v \<noteq> [])"

definition nullish_coalesce :: "'a option \<Rightarrow> 'a \<Rightarrow> 'a" where
  "nullish_coalesce a b = (case a of None \<Rightarrow> b | Some v \<Rightarrow> v)"

definition AutofillerClient :: "AutofillerConfig \<Rightarrow> sdk_error + ClientConfig" where
  "AutofillerClient config =
     (if \<not> truthy (cfg_apiKey config) then Inl (ValidationError ''API key is required'')
      else Inr \<lparr>apiKey = nullish_coalesce (cfg_apiKey config) [],
                baseUrl = nullish_coalesce (cfg_baseUrl config) DEFAULT_BASE_URL,
                timeout = nullish_coalesce (cfg_timeout config) DEFAULT_TIMEOUT,
                maxRetries = nullish_coalesce (cfg_maxRetries config) DEFAULT_MAX_RETRIES\<rparr>)"

subsection \<open>Multi-part bodies and the options of an extraction\<close>

datatype file_input =
  Path string
| Buffer "8 word list"
| Blob "8 word list"

record ExtractOptions =
  file' :: file_input
  filename :: "string option"
  domainPack :: "string option"
  includeConfidence :: "bool option"
  includeBoundingBoxes :: "bool option"
  language :: "string option"

record ExtractAsyncOptions = ExtractOptions +
  webhookUrl :: "string option"

datatype json_scalar = JSON_boolean bool | JSON_string string

text \<open>
  The value of one part of a \<^verbatim>\<open>FormData\<close>: a read stream on a path, the bytes of a
  buffer or of a blob, a plain string, or the text \<^verbatim>\<open>JSON.stringify\<close> makes of an
  object (kept as the object's entries, in insertion order).
\<close>

datatype part_value =
  ReadStream string
| BufferValue "8 word list"
| BlobValue "8 word list"
| StringValue string
| JSON_stringify "(string \<times> json_scalar) list"

record form_part =
  part_name :: string
  part_value :: part_value
  part_filename :: "string option"

type_synonym FormData = "form_part list"

subsection \<open>The platform\<close>

datatype http_method = GET | POST | PUT | DELETE

datatype BodyInit =
  FormData_body FormData
| JSON_body "(string \<times> json_scalar) list"

text \<open>What \<^verbatim>\<open>fetch\<close> is called with; the signal aborts after \<open>abort_after\<close> ms.\<close>

record http_request =
  url :: string
  fetch_method :: http_method
  fetch_headers :: "string \<rightharpoonup> string"
  fetch_body :: "BodyInit option"
  abort_after :: int

text \<open>
  The body of an error response as \<^verbatim>\<open>handleErrorResponse\<close> declares it:
  \<^verbatim>\<open>{ code?: string; message?: string }\<close>. A property is \<open>None\<close> when the body
  does not have it, or has it as \<^verbatim>\<open>null\<close>.
\<close>

record ErrorData =
  data_code :: "string option"
  data_message :: "string option"

text \<open>
  What \<^verbatim>\<open>await response.json()\<close> gives \<^verbatim>\<open>handleErrorResponse\<close>. The declaration
  of \<^verbatim>\<open>errorData\<close> is not checked when the program runs, and \<^verbatim>\<open>null\<close> is JSON:
  the call throws (the body is not JSON), or returns \<^verbatim>\<open>null\<close>, or returns another
  value, of which the function reads the properties \<^verbatim>\<open>code\<close> and \<^verbatim>\<open>message\<close>
  (a number, a string, a boolean or an array has neither).
\<close>

datatype error_body =
  Not_JSON
| JSON_null
| JSON_value ErrorData

text \<open>
  A \<^verbatim>\<open>Response\<close>. Its body is read once, by \<^verbatim>\<open>response.json()\<close>, at the type of
  the reader: \<open>json_T\<close> is what \<^verbatim>\<open>(await response.json()) as T\<close> gives \<^verbatim>\<open>request\<close>
  (\<open>Inl\<close> what it throws when the body is not JSON), \<open>json_error\<close> is what it gives
  \<^verbatim>\<open>handleErrorResponse\<close>.
\<close>

record 'a response =
  status :: nat
  statusText :: string
  json_T :: "thrown + 'a"
  json_error :: error_body

definition ok :: "'a response \<Rightarrow> bool" where
  "ok r = (200 \<le> status r \<and> status r \<le> 299)"

text \<open>
  How the network answers one call of \<^verbatim>\<open>fetch\<close>: after \<open>latency\<close> ms the promise
  settles, with a response or with what it rejects with.
\<close>

record 'a reply =
  latency :: nat
  settled :: "thrown + 'a response"

text \<open>
  The world: the clock \<^verbatim>\<open>Date.now()\<close> reads, the replies of the network to the calls
  of \<^verbatim>\<open>fetch\<close> still to come, and the calls of \<^verbatim>\<open>fetch\<close> made so far, each with
  the time it was made at.
\<close>

record 'a world =
  now :: int
  replies :: "'a reply list"
  sent :: "(int \<times> http_request) list"

text \<open>
  The functions of the runtime the client calls: \<^verbatim>\<open>Date.parse\<close> (\<open>None\<close> for
  \<^verbatim>\<open>NaN\<close>), \<^verbatim>\<open>path.resolve\<close>, \<^verbatim>\<open>path.basename\<close>, the \<^verbatim>\<open>getHeaders\<close> of a
  \<^verbatim>\<open>FormData\<close>, and the time a timer set with \<^verbatim>\<open>setTimeout(f, ms)\<close> takes to fire.
\<close>

record platform =
  Date_parse :: "string \<Rightarrow> int option"
  path_resolve :: "string \<Rightarrow> string"
  path_basename :: "string \<Rightarrow> string"
  getHeaders :: "FormData \<Rightarrow> (string \<rightharpoonup> string)"
  timer_fires_after :: "int \<Rightarrow> nat"

text \<open>
  \<^verbatim>\<open>fetch\<close> with an abort signal: the call is logged; the network's reply settles the
  promise when it comes before the signal aborts, otherwise the promise rejects with an
  \<^verbatim>\<open>AbortError\<close>. With no reply left the model has no answer (\<open>None\<close>).
\<close>

definition fetch ::
  "http_request \<Rightarrow> 'a world \<Rightarrow> ((thrown + 'a response) \<times> 'a world) option" where
  "fetch req w =
     (case replies w of
        [] \<Rightarrow> None
      | r # rs \<Rightarrow>
          (let w' = w\<lparr>replies := rs, sent := sent w @ [(now w, req)]\<rparr> in
           if int (latency r) < abort_after req
           then Some (settled r, w'\<lparr>now := now w + int (latency r)\<rparr>)
           else Some (Inl (Thrown_Error ''AbortError'' ''This operation was aborted''),
                      w'\<lparr>now := now w + max 0 (abort_after req)\<rparr>)))"

definition sleep :: "platform \<Rightarrow> int \<Rightarrow> 'a world \<Rightarrow> 'a world" where
  "sleep pf ms w = w\<lparr>now := now w + int (timer_fires_after pf ms)\<rparr>"

subsection \<open>Transport: \<^verbatim>\<open>handleErrorResponse\<close> and \<^verbatim>\<open>request\<close>\<close>

text \<open>
  What reading the property \<open>p\<close> of \<^verbatim>\<open>null\<close> throws: a \<^verbatim>\<open>TypeError\<close>, with the
  message of V8.
\<close>

definition null_property_TypeError :: "string \<Rightarrow> thrown" where
  "null_property_TypeError p =
     Thrown_Error ''TypeError''
       (''Cannot read properties of null (reading '' @ [CHR 0x27] @ p @ [CHR 0x27] @ '')'')"

text \<open>
  \<^verbatim>\<open>handleErrorResponse\<close> always throws; its value here is what it throws.
  \<open>errorData\<close> is \<open>None\<close> when the variable holds \<^verbatim>\<open>null\<close>: the \<^verbatim>\<open>try\<close> block
  has assigned it, and the read of \<^verbatim>\<open>errorData.message\<close> that follows the block
  throws.
\<close>

definition handleErrorResponse :: "'a response \<Rightarrow> thrown" where
  "handleErrorResponse r =
     (let errorData =
            (case json_error r of
               Not_JSON \<Rightarrow> Some \<lparr>data_code = None, data_message = None\<rparr>
             | JSON_null \<Rightarrow> None
             | JSON_value d \<Rightarrow> Some d)
      in case errorData of
           None \<Rightarrow> null_property_TypeError ''message''
         | Some d \<Rightarrow>
             (let msg = nullish_coalesce (data_message d) (statusText r);
                  c = nullish_coalesce (data_code d) (''http_'' @ string_of_nat (status r))
              in if status r = 401 then Thrown_sdk (AuthenticationError (Some msg))
                 else if status r = 429 then Thrown_sdk (RateLimitError (Some msg))
                 else if status r = 400 \<or> status r = 422 then Thrown_sdk (ValidationError msg)
                 else Thrown_sdk (AutofillerError msg c)))"

datatype request_body =
  FormData_input FormData
| Record_input "(string \<times> json_scalar) list"

record request_options =
  method' :: http_method
  body :: "request_body option"
  headers :: "(string \<rightharpoonup> string) option"
  auth :: "bool option"

definition requestHeaders :: "ClientConfig \<Rightarrow> request_options \<Rightarrow> (string \<rightharpoonup> string)" where
  "requestHeaders config options =
     (let h0 = nullish_coalesce (headers options) Map.empty;
          h1 = (if nullish_coalesce (auth options) True
                then h0(''Authorization'' \<mapsto> ''Bearer '' @ apiKey config) else h0)
      in case body options of
           Some (Record_input _) \<Rightarrow> h1(''Content-Type'' \<mapsto> ''application/json'')
         | _ \<Rightarrow> h1)"

definition requestBody :: "request_options \<Rightarrow> BodyInit option" where
  "requestBody options =
     (case body options of
        None \<Rightarrow> None
      | Some (FormData_input f) \<Rightarrow> Some (FormData_body f)
      | Some (Record_input r) \<Rightarrow> Some (JSON_body r))"

text \<open>The \<^verbatim>\<open>catch\<close> block of \<^verbatim>\<open>request\<close>: the error it throws for what it caught.\<close>

definition request_catch :: "thrown \<Rightarrow> sdk_error" where
  "request_catch t =
     (case t of
        Thrown_sdk e \<Rightarrow> e
      | Thrown_Error nm msg \<Rightarrow>
          if nm = ''AbortError'' then AutofillerError ''Request timed out'' ''timeout''
          else AutofillerError (''Request failed: '' @ msg) ''request_failed''
      | Thrown_value \<Rightarrow> AutofillerError ''Request failed: Unknown error'' ''request_failed'')"

definition request ::
  "ClientConfig \<Rightarrow> string \<Rightarrow> request_options \<Rightarrow> 'a world \<Rightarrow>
     ((sdk_error + 'a) \<times> 'a world) option" where
  "request config endpoint options w =
     (case fetch \<lparr>url = baseUrl config @ endpoint,
                   fetch_method = method' options,
                   fetch_headers = requestHeaders config options,
                   fetch_body = requestBody options,
                   abort_after = timeout config\<rparr> w of
        None \<Rightarrow> None
      | Some (Inl t, w') \<Rightarrow> Some (Inl (request_catch t), w')
      | Some (Inr r, w') \<Rightarrow>
          if \<not> ok r then Some (Inl (request_catch (handleErrorResponse r)), w')
          else (case json_T r of
                  Inl t \<Rightarrow> Some (Inl (request_catch t), w')
                | Inr v \<Rightarrow> Some (Inr v, w')))"

subsection \<open>Request builder: \<^verbatim>\<open>buildFormData\<close>\<close>

definition FormData_append ::
  "string \<Rightarrow> part_value \<Rightarrow> string option \<Rightarrow> FormData \<Rightarrow> FormData" where
  "FormData_append nm v fn fd = fd @ [\<lparr>part_name = nm, part_value = v, part_filename = fn\<rparr>]"

text \<open>
  The objects \<^verbatim>\<open>buildFormData\<close> works on: the caller's \<^verbatim>\<open>options\<close>, and the two
  objects it creates, \<^verbatim>\<open>formData\<close> and \<^verbatim>\<open>extractOptions\<close>. Each statement of the
  function is a function on this state and reads \<^verbatim>\<open>options\<close> from it.
\<close>

record 'z build_state =
  options_obj :: "'z ExtractOptions_scheme"
  formData :: FormData
  extractOptions :: "(string \<times> json_scalar) list"

definition formData_append ::
  "string \<Rightarrow> part_value \<Rightarrow> string option \<Rightarrow> 'z build_state \<Rightarrow> 'z build_state" where
  "formData_append nm v fn s = s\<lparr>formData := FormData_append nm v fn (formData s)\<rparr>"

definition extractOptions_set ::
  "string \<Rightarrow> json_scalar \<Rightarrow> 'z build_state \<Rightarrow> 'z build_state" where
  "extractOptions_set k v s = s\<lparr>extractOptions := AList.update k v (extractOptions s)\<rparr>"

text \<open>The file input: the only statement that can throw.\<close>

definition append_file :: "platform \<Rightarrow> 'z build_state \<Rightarrow> sdk_error + 'z build_state" where
  "append_file pf s =
     (case file' (options_obj s) of
        Path p \<Rightarrow>
          (let filePath = path_resolve pf p;
               fname = nullish_coalesce (filename (options_obj s)) (path_basename pf filePath)
           in Inr (formData_append ''file'' (ReadStream filePath) (Some fname) s))
      | Buffer b \<Rightarrow>
          if \<not> truthy (filename (options_obj s))
          then Inl (ValidationError ''filename is required when file is a Buffer'')
          else Inr (formData_append ''file'' (BufferValue b) (filename (options_obj s)) s)
      | Blob b \<Rightarrow>
          Inr (formData_append ''file'' (BlobValue b)
                 (Some (nullish_coalesce (filename (options_obj s)) ''document'')) s))"

definition append_domain_pack :: "'z build_state \<Rightarrow> 'z build_state" where
  "append_domain_pack s =
     (if truthy (domainPack (options_obj s))
      then formData_append ''domain_pack''
             (StringValue (nullish_coalesce (domainPack (options_obj s)) [])) None s
      else s)"

definition set_include_confidence :: "'z build_state \<Rightarrow> 'z build_state" where
  "set_include_confidence s =
     (case includeConfidence (options_obj s) of
        None \<Rightarrow> s
      | Some b \<Rightarrow> extractOptions_set ''include_confidence'' (JSON_boolean b) s)"

definition set_include_bounding_boxes :: "'z build_state \<Rightarrow> 'z build_state" where
  "set_include_bounding_boxes s =
     (case includeBoundingBoxes (options_obj s) of
        None \<Rightarrow> s
      | Some b \<Rightarrow> extractOptions_set ''include_bounding_boxes'' (JSON_boolean b) s)"

definition set_language :: "'z build_state \<Rightarrow> 'z build_state" where
  "set_language s =
     (if truthy (language (options_obj s))
      then extractOptions_set ''language''
             (JSON_string (nullish_coalesce (language (options_obj s)) [])) s
      else s)"

definition append_options :: "'z build_state \<Rightarrow> 'z build_state" where
  "append_options s =
     (if length (extractOptions s) > 0
      then formData_append ''options'' (JSON_stringify (extractOptions s)) None s
      else s)"

text \<open>
  The body of \<^verbatim>\<open>buildFormData\<close> on the state: what it throws or returns, and the state
  it leaves.
\<close>

definition buildFormData_body ::
  "platform \<Rightarrow> 'z build_state \<Rightarrow> (sdk_error + FormData) \<times> 'z build_state" where
  "buildFormData_body pf s =
     (case append_file pf s of
        Inl e \<Rightarrow> (Inl e, s)
      | Inr s1 \<Rightarrow>
          (let s2 = append_domain_pack s1;
               s3 = set_include_confidence s2;
               s4 = set_include_bounding_boxes s3;
               s5 = set_language s4;
               s6 = append_options s5
           in (Inr (formData s6), s6)))"

definition buildFormData_start :: "'z ExtractOptions_scheme \<Rightarrow> 'z build_state" where
  "buildFormData_start options = \<lparr>options_obj = options, formData = [], extractOptions = []\<rparr>"

definition buildFormData ::
  "platform \<Rightarrow> 'z ExtractOptions_scheme \<Rightarrow> sdk_error + FormData" where
  "buildFormData pf options = fst (buildFormData_body pf (buildFormData_start options))"

subsection \<open>Result normalizer\<close>

type_synonym number = real

text \<open>A \<^verbatim>\<open>Date\<close>: a time value in milliseconds, or the invalid date.\<close>

datatype Date = Date int | Invalid_Date

text \<open>
  \<^verbatim>\<open>new Date(v)\<close> for a string (parsed) or a number (a time value, valid up to
  8.64e15 ms either side of the epoch).
\<close>

definition new_Date :: "platform \<Rightarrow> string + int \<Rightarrow> Date" where
  "new_Date pf v =
     (case v of
        Inl s \<Rightarrow> (case Date_parse pf s of None \<Rightarrow> Invalid_Date | Some t \<Rightarrow> Date t)
      | Inr t \<Rightarrow> if \<bar>t\<bar> \<le> 8640000000000000 then Date t else Invalid_Date)"

record BoundingBox =
  box_page :: number
  box_x :: number
  box_y :: number
  box_width :: number
  box_height :: number

record ApiMetadata =
  m_pages :: "number option"
  m_processing_time_ms :: "number option"
  m_model_version :: "string option"
  m_created_at :: "string option"

record 'd ApiExtractionResult =
  r_id :: string
  r_status :: string
  r_domain_pack :: string
  r_data :: 'd
  r_confidence :: "(string \<rightharpoonup> number) option"
  r_bounding_boxes :: "(string \<rightharpoonup> BoundingBox) option"
  r_metadata :: "ApiMetadata option"
  r_warnings :: "string list option"

text \<open>
  The error of a job. The interfaces declare both parts strings; \<^verbatim>\<open>waitForJob\<close> guards
  each with \<^verbatim>\<open>??\<close>, so each is an option here.
\<close>

record JobError =
  e_code :: "string option"
  e_message :: "string option"

record 'd ApiJobStatus =
  j_job_id :: string
  j_status :: string
  j_progress :: "number option"
  j_result :: "'d ApiExtractionResult option"
  j_error :: "JobError option"
  j_created_at :: string
  j_completed_at :: "string option"

record ExtractionMetadata =
  pages :: number
  processingTimeMs :: number
  modelVersion :: string
  createdAt :: Date

record 'd ExtractResult =
  result_id :: string
  result_status :: string
  result_domainPack :: string
  data :: 'd
  confidence :: "(string \<rightharpoonup> number) option"
  boundingBoxes :: "(string \<rightharpoonup> BoundingBox) option"
  metadata :: ExtractionMetadata
  warnings :: "string list option"

record 'd JobStatus =
  jobId :: string
  job_status :: string
  progress :: "number option"
  result :: "'d ExtractResult option"
  error :: "JobError option"
  job_createdAt :: Date
  completedAt :: "Date option"

text \<open>\<open>t\<close> is the reading of the clock, for \<^verbatim>\<open>Date.now()\<close>.\<close>

definition transformExtractionResult ::
  "platform \<Rightarrow> int \<Rightarrow> 'd ApiExtractionResult \<Rightarrow> 'd ExtractResult" where
  "transformExtractionResult pf t response =
     \<lparr>result_id = r_id response,
      result_status = r_status response,
      result_domainPack = r_domain_pack response,
      data = r_data response,
      confidence = r_confidence response,
      boundingBoxes = r_bounding_boxes response,
      metadata =
        \<lparr>pages = nullish_coalesce (Option.bind (r_metadata response) m_pages) 0,
         processingTimeMs =
           nullish_coalesce (Option.bind (r_metadata response) m_processing_time_ms) 0,
         modelVersion =
           nullish_coalesce (Option.bind (r_metadata response) m_model_version) ''unknown'',
         createdAt =
           new_Date pf
             (case Option.bind (r_metadata response) m_created_at of
                Some s \<Rightarrow> Inl s
              | None \<Rightarrow> Inr t)\<rparr>,
      warnings = r_warnings response\<rparr>"

definition transformJobStatus ::
  "platform \<Rightarrow> int \<Rightarrow> 'd ApiJobStatus \<Rightarrow> 'd JobStatus" where
  "transformJobStatus pf t response =
     \<lparr>jobId = j_job_id response,
      job_status = j_status response,
      progress = j_progress response,
      result = map_option (transformExtractionResult pf t) (j_result response),
      error = j_error response,
      job_createdAt = new_Date pf (Inl (j_created_at response)),
      completedAt =
        (if truthy (j_completed_at response)
         then Some (new_Date pf (Inl (nullish_coalesce (j_completed_at response) [])))
         else None)\<rparr>"

subsection \<open>The calls of the client\<close>

definition extract' ::
  "platform \<Rightarrow> ClientConfig \<Rightarrow> 'z ExtractOptions_scheme \<Rightarrow> 'd ApiExtractionResult world \<Rightarrow>
     ((sdk_error + 'd ExtractResult) \<times> 'd ApiExtractionResult world) option" where
  "extract' pf config options w =
     (case buildFormData pf options of
        Inl e \<Rightarrow> Some (Inl e, w)
      | Inr fd \<Rightarrow>
          (case request config ''/extract''
                  \<lparr>method' = POST, body = Some (FormData_input fd),
                   headers = Some (getHeaders pf fd), auth = None\<rparr> w of
             None \<Rightarrow> None
           | Some (Inl e, w') \<Rightarrow> Some (Inl e, w')
           | Some (Inr response, w') \<Rightarrow>
               Some (Inr (transformExtractionResult pf (now w') response), w')))"

record ApiJobHandle =
  h_job_id :: string
  h_status :: string
  h_estimated_time_seconds :: "number option"

record JobHandle =
  handle_jobId :: string
  handle_status :: string
  estimatedTimeSeconds :: "number option"

definition extractAsync ::
  "platform \<Rightarrow> ClientConfig \<Rightarrow> 'z ExtractAsyncOptions_scheme \<Rightarrow> ApiJobHandle world \<Rightarrow>
     ((sdk_error + JobHandle) \<times> ApiJobHandle world) option" where
  "extractAsync pf config options w =
     (case buildFormData pf options of
        Inl e \<Rightarrow> Some (Inl e, w)
      | Inr fd0 \<Rightarrow>
          (let fd = (if truthy (webhookUrl options)
                     then FormData_append ''webhook_url''
                            (StringValue (nullish_coalesce (webhookUrl options) [])) None fd0
                     else fd0)
           in case request config ''/extract/async''
                     \<lparr>method' = POST, body = Some (FormData_input fd),
                      headers = Some (getHeaders pf fd), auth = None\<rparr> w of
                None \<Rightarrow> None
              | Some (Inl e, w') \<Rightarrow> Some (Inl e, w')
              | Some (Inr response, w') \<Rightarrow>
                  Some (Inr \<lparr>handle_jobId = h_job_id response,
                             handle_status = ''pending'',
                             estimatedTimeSeconds = h_estimated_time_seconds response\<rparr>, w')))"

definition getJob ::
  "platform \<Rightarrow> ClientConfig \<Rightarrow> string \<Rightarrow> 'd ApiJobStatus world \<Rightarrow>
     ((sdk_error + 'd JobStatus) \<times> 'd ApiJobStatus world) option" where
  "getJob pf config job w =
     (case request config (''/jobs/'' @ job)
             \<lparr>method' = GET, body = None, headers = None, auth = None\<rparr> w of
        None \<Rightarrow> None
      | Some (Inl e, w') \<Rightarrow> Some (Inl e, w')
      | Some (Inr response, w') \<Rightarrow> Some (Inr (transformJobStatus pf (now w') response), w'))"

subsection \<open>Job poller: \<^verbatim>\<open>waitForJob\<close>\<close>

text \<open>
  The \<^verbatim>\<open>while\<close> loop of \<^verbatim>\<open>waitForJob\<close>. Every turn that polls takes one reply of
  the world, so the loop ends; with no reply left the model has no answer (\<open>None\<close>).
\<close>

function waitForJob_loop ::
  "platform \<Rightarrow> ClientConfig \<Rightarrow> string \<Rightarrow> int \<Rightarrow> int \<Rightarrow> int \<Rightarrow> 'd ApiJobStatus world \<Rightarrow>
     ((sdk_error + 'd ExtractResult) \<times> 'd ApiJobStatus world) option" where
  "waitForJob_loop pf config job pollInterval maxWait startTime w =
     (if now w - startTime < maxWait then
        (case getJob pf config job w of
           None \<Rightarrow> None
         | Some (Inl e, w1) \<Rightarrow> Some (Inl e, w1)
         | Some (Inr j, w1) \<Rightarrow>
             if job_status j = ''completed'' \<and> result j \<noteq> None
             then Some (Inr (the (result j)), w1)
             else if job_status j = ''failed''
             then Some (Inl (AutofillerError
                               (nullish_coalesce (Option.bind (error j) e_message) ''Job failed'')
                               (nullish_coalesce (Option.bind (error j) e_code) ''job_failed'')),
                        w1)
             else waitForJob_loop pf config job pollInterval maxWait startTime
                    (sleep pf pollInterval w1))
      else Some (Inl (AutofillerError ''Job timed out waiting for completion'' ''job_timeout''),
                 w))"
  by pat_completeness auto
termination
proof (relation "measure (\<lambda>(pf, config, job, pollInterval, maxWait, startTime, w).
                    length (replies w))")
  show "wf (measure (\<lambda>(pf :: platform, config :: ClientConfig, job :: string,
                       pollInterval :: int, maxWait :: int, startTime :: int,
                       w :: 'd ApiJobStatus world). length (replies w)))"
    by simp
next
  fix pf :: platform and config :: ClientConfig and job :: string
    and pollInterval maxWait startTime :: int
    and w w1 :: "'d ApiJobStatus world"
    and x2 :: "(sdk_error + 'd JobStatus) \<times> 'd ApiJobStatus world"
    and x1 :: "sdk_error + 'd JobStatus" and j :: "'d JobStatus"
  assume "getJob pf config job w = Some x2" and "(x1, w1) = x2" and "x1 = Inr j"
  then have g: "getJob pf config job w = Some (Inr j, w1)"
    by simp
  have "length (replies w1) < length (replies w)"
    using g
    by (auto simp: getJob_def request_def fetch_def Let_def
             split: list.splits if_splits option.splits sum.splits prod.splits)
  then show "((pf, config, job, pollInterval, maxWait, startTime, sleep pf pollInterval w1),
              (pf, config, job, pollInterval, maxWait, startTime, w))
             \<in> measure (\<lambda>(pf, config, job, pollInterval, maxWait, startTime, w).
                          length (replies w))"
    by (simp add: sleep_def)
qed

declare waitForJob_loop.simps [simp del]

text \<open>\<^verbatim>\<open>pollInterval = 2000\<close> and \<^verbatim>\<open>maxWait = 300000\<close> when the caller passes none.\<close>

definition waitForJob ::
  "platform \<Rightarrow> ClientConfig \<Rightarrow> string \<Rightarrow> int option \<Rightarrow> int option \<Rightarrow> 'd ApiJobStatus world \<Rightarrow>
     ((sdk_error + 'd ExtractResult) \<times> 'd ApiJobStatus world) option" where
  "waitForJob pf config job pollInterval maxWait w =
     waitForJob_loop pf config job (nullish_coalesce pollInterval 2000)
       (nullish_coalesce maxWait 300000) (now w) w"

subsection \<open>Vocabulary for the poll loop\<close>

text \<open>The request \<^verbatim>\<open>getJob\<close> sends for a job.\<close>

definition status_request :: "ClientConfig \<Rightarrow> string \<Rightarrow> http_request" where
  "status_request config job =
     \<lparr>url = baseUrl config @ ''/jobs/'' @ job, fetch_method = GET,
      fetch_headers = [''Authorization'' \<mapsto> ''Bearer '' @ apiKey config],
      fetch_body = None, abort_after = timeout config\<rparr>"

text \<open>
  A reply after which the loop polls again: it comes before the timeout, with a status
  in 200..299 and a job status that is neither \<^verbatim>\<open>failed\<close> nor \<^verbatim>\<open>completed\<close> with a
  result.
\<close>

definition pending_reply :: "ClientConfig \<Rightarrow> 'd ApiJobStatus reply \<Rightarrow> bool" where
  "pending_reply config rp =
     (int (latency rp) < timeout config \<and>
      (case settled rp of
         Inl _ \<Rightarrow> False
       | Inr r \<Rightarrow>
           ok r \<and>
           (case json_T r of
              Inl _ \<Rightarrow> False
            | Inr y \<Rightarrow>
                \<not> (j_status y = ''completed'' \<and> j_result y \<noteq> None) \<and>
                j_status y \<noteq> ''failed'')))"

text \<open>The time one turn of the loop takes: the reply, then the timer of \<^verbatim>\<open>sleep\<close>.\<close>

definition round_ms :: "platform \<Rightarrow> int \<Rightarrow> 'a reply \<Rightarrow> int" where
  "round_ms pf pollInterval rp = int (latency rp) + int (timer_fires_after pf pollInterval)"

subsection \<open>Example inputs\<close>

text \<open>Concrete configurations, replies and worlds, on which the theorems are evaluated.\<close>

definition example_config :: ClientConfig where
  "example_config =
     \<lparr>apiKey = ''sk_test'', baseUrl = DEFAULT_BASE_URL, timeout = DEFAULT_TIMEOUT,
      maxRetries = DEFAULT_MAX_RETRIES\<rparr>"

definition get_options :: request_options where
  "get_options = \<lparr>method' = GET, body = None, headers = None, auth = None\<rparr>"

definition world_at :: "int \<Rightarrow> 'a reply list \<Rightarrow> 'a world" where
  "world_at t rs = \<lparr>now = t, replies = rs, sent = []\<rparr>"

definition responds :: "nat \<Rightarrow> 'a response \<Rightarrow> 'a reply" where
  "responds ms r = \<lparr>latency = ms, settled = Inr r\<rparr>"

definition error_response :: "nat \<Rightarrow> string \<Rightarrow> error_body \<Rightarrow> unit response" where
  "error_response st txt b =
     \<lparr>status = st, statusText = txt,
      json_T = (case b of
                  Not_JSON \<Rightarrow> Inl (Thrown_Error ''SyntaxError'' ''Unexpected end of JSON input'')
                | _ \<Rightarrow> Inr ()),
      json_error = b\<rparr>"

definition success_response :: "'a \<Rightarrow> 'a response" where
  "success_response v =
     \<lparr>status = 200, statusText = ''OK'', json_T = Inr v,
      json_error = JSON_value \<lparr>data_code = None, data_message = None\<rparr>\<rparr>"

definition malformed_response :: "string \<Rightarrow> unit response" where
  "malformed_response msg =
     \<lparr>status = 200, statusText = ''OK'', json_T = Inl (Thrown_Error ''SyntaxError'' msg),
      json_error = Not_JSON\<rparr>"

definition rejects :: "nat \<Rightarrow> thrown \<Rightarrow> 'a reply" where
  "rejects ms t = \<lparr>latency = ms, settled = Inl t\<rparr>"

definition example_Date_parse :: "string \<Rightarrow> int option" where
  "example_Date_parse s = (if s = ''2024-01-15T00:00:00Z'' then Some 1705276800000 else None)"

definition example_platform :: platform where
  "example_platform =
     \<lparr>Date_parse = example_Date_parse,
      path_resolve = (@) ''/srv/app/'',
      path_basename = rev \<circ> takeWhile ((\<noteq>) CHR ''/'') \<circ> rev,
      getHeaders = (\<lambda>fd. [''content-type'' \<mapsto> ''multipart/form-data; boundary=x'']),
      timer_fires_after = nat \<circ> max 1\<rparr>"

definition buffer_options :: "string option \<Rightarrow> ExtractOptions" where
  "buffer_options fn =
     \<lparr>file' = Buffer [0x25, 0x50, 0x44, 0x46], filename = fn, domainPack = Some ''invoice-standard'',
      includeConfidence = Some True, includeBoundingBoxes = None, language = Some ''en''\<rparr>"

definition buffer_async_options :: "string option \<Rightarrow> ExtractAsyncOptions" where
  "buffer_async_options fn =
     \<lparr>file' = Buffer [0x25, 0x50, 0x44, 0x46], filename = fn, domainPack = None,
      includeConfidence = None, includeBoundingBoxes = Some False, language = None,
      webhookUrl = Some ''https://example.test/hook''\<rparr>"

definition full_result :: "(string \<times> string) list ApiExtractionResult" where
  "full_result =
     \<lparr>r_id = ''ext_1'', r_status = ''completed'', r_domain_pack = ''invoice-standard'',
      r_data = [(''invoice_number'', ''INV-001'')],
      r_confidence = Some [''invoice_number'' \<mapsto> 0.5],
      r_bounding_boxes =
        Some [''invoice_number'' \<mapsto>
                \<lparr>box_page = 1, box_x = 10, box_y = 20, box_width = 100, box_height = 12\<rparr>],
      r_metadata =
        Some \<lparr>m_pages = Some 2, m_processing_time_ms = Some 840, m_model_version = Some ''v3'',
               m_created_at = Some ''2024-01-15T00:00:00Z''\<rparr>,
      r_warnings = Some [''low resolution'']\<rparr>"

definition bare_result :: "(string \<times> string) list ApiExtractionResult" where
  "bare_result =
     \<lparr>r_id = ''ext_2'', r_status = ''partial'', r_domain_pack = ''receipt'',
      r_data = [], r_confidence = None, r_bounding_boxes = None, r_metadata = None,
      r_warnings = None\<rparr>"

definition undated_result :: "(string \<times> string) list ApiExtractionResult" where
  "undated_result =
     bare_result\<lparr>r_metadata :=
       Some \<lparr>m_pages = Some 1, m_processing_time_ms = None, m_model_version = None,
              m_created_at = Some ''last Tuesday''\<rparr>\<rparr>"

definition job_snapshot ::
  "string \<Rightarrow> 'd ApiExtractionResult option \<Rightarrow> JobError option \<Rightarrow> 'd ApiJobStatus" where
  "job_snapshot st res err =
     \<lparr>j_job_id = ''job_1'', j_status = st, j_progress = Some 40, j_result = res, j_error = err,
      j_created_at = ''2024-01-15T00:00:00Z'', j_completed_at = None\<rparr>"

definition undated_job :: "(string \<times> string) list ApiJobStatus" where
  "undated_job =
     (job_snapshot ''processing'' None None)
       \<lparr>j_created_at := ''yesterday'', j_completed_at := Some ''soon''\<rparr>"

definition path_options :: ExtractOptions where
  "path_options =
     \<lparr>file' = Path ''invoice.pdf'', filename = None, domainPack = Some ''invoice-standard'',
      includeConfidence = Some True, includeBoundingBoxes = None, language = None\<rparr>"

definition job_reply ::
  "nat \<Rightarrow> string \<Rightarrow> (string \<times> string) list ApiExtractionResult option \<Rightarrow>
     (string \<times> string) list ApiJobStatus reply" where
  "job_reply ms st res = responds ms (success_response (job_snapshot st res None))"

definition failed_reply :: "nat \<Rightarrow> JobError option \<Rightarrow> (string \<times> string) list ApiJobStatus reply" where
  "failed_reply ms err = responds ms (success_response (job_snapshot ''failed'' None err))"

section \<open>Properties\<close>

subsection \<open>Transport\<close>

text \<open>
  A reply that comes before the timeout with a status outside 200..299: \<^verbatim>\<open>request\<close>
  throws what its \<^verbatim>\<open>catch\<close> block makes of what \<^verbatim>\<open>handleErrorResponse\<close> throws.
\<close>

lemma request_not_ok:
  assumes "replies w = rp # rest" and "int (latency rp) < timeout config"
    and "settled rp = Inr r" and "\<not> ok r"
  shows "request config endpoint options w =
           Some (Inl (request_catch (handleErrorResponse r)),
                 w\<lparr>replies := rest,
                   sent := sent w @ [(now w, \<lparr>url = baseUrl config @ endpoint,
                       fetch_method = method' options,
                       fetch_headers = requestHeaders config options,
                       fetch_body = requestBody options,
                       abort_after = timeout config\<rparr>)],
                   now := now w + int (latency rp)\<rparr>)"
  using assms by (simp add: request_def fetch_def Let_def)

lemma handleErrorResponse_cong:
  fixes r :: "'a response" and r' :: "'b response"
  assumes "status r' = status r" and "statusText r' = statusText r"
    and "json_error r' = json_error r"
  shows "handleErrorResponse r' = handleErrorResponse r"
  unfolding handleErrorResponse_def assms by (rule refl)

text \<open>
  A body that is \<^verbatim>\<open>null\<close>: the \<^verbatim>\<open>TypeError\<close> is no error of the SDK and no abort, so
  the \<^verbatim>\<open>catch\<close> block wraps it, whatever the status.
\<close>

lemma handleErrorResponse_null:
  assumes "json_error r = JSON_null"
  shows "request_catch (handleErrorResponse r) =
           \<lparr>cls = AutofillerError_class, name = ''AutofillerError'',
            message = ''Request failed: Cannot read properties of null (reading ''
                        @ [CHR 0x27] @ ''message'' @ [CHR 0x27] @ '')'',
            code = ''request_failed''\<rparr>"
  using assms
  by (simp add: handleErrorResponse_def null_property_TypeError_def request_catch_def
        AutofillerError_def)

text \<open>
  A body other than \<^verbatim>\<open>null\<close>. \<^verbatim>\<open>request\<close> throws the error
  \<^verbatim>\<open>handleErrorResponse\<close> builds from the response, whatever the endpoint, the options
  and the configuration of the call: an \<^verbatim>\<open>AuthenticationError\<close> for 401, a
  \<^verbatim>\<open>RateLimitError\<close> for 429, a \<^verbatim>\<open>ValidationError\<close> for 400 and 422, and for every
  other status an \<^verbatim>\<open>AutofillerError\<close> whose message is the \<^verbatim>\<open>message\<close> of the body,
  or the status text when the body has none or is not JSON, and whose code is the
  \<^verbatim>\<open>code\<close> of the body, or \<^verbatim>\<open>http_<status>\<close>. Two responses with the same status,
  status text and parsed error body give the same error.
\<close>

lemma error_classification:
  fixes r :: "'a response" and w :: "'a world"
  assumes "replies w = rp # rest" and "int (latency rp) < timeout config"
    and "settled rp = Inr r" and "\<not> ok r" and "json_error r \<noteq> JSON_null"
  shows "(\<exists>w'. request config endpoint options w =
                  Some (Inl (request_catch (handleErrorResponse r)), w')) \<and>
         (status r = 401 \<longrightarrow>
            cls (request_catch (handleErrorResponse r)) = AuthenticationError_class) \<and>
         (status r = 429 \<longrightarrow>
            cls (request_catch (handleErrorResponse r)) = RateLimitError_class) \<and>
         (status r = 400 \<or> status r = 422 \<longrightarrow>
            cls (request_catch (handleErrorResponse r)) = ValidationError_class) \<and>
         (status r \<notin> {401, 429, 400, 422} \<longrightarrow>
            cls (request_catch (handleErrorResponse r)) = AutofillerError_class \<and>
            message (request_catch (handleErrorResponse r)) =
              (case json_error r of
                 JSON_value d \<Rightarrow> (case data_message d of None \<Rightarrow> statusText r | Some m \<Rightarrow> m)
               | _ \<Rightarrow> statusText r) \<and>
            code (request_catch (handleErrorResponse r)) =
              (case json_error r of
                 JSON_value d \<Rightarrow>
                   (case data_code d of
                      None \<Rightarrow> ''http_'' @ string_of_nat (status r)
                    | Some c \<Rightarrow> c)
               | _ \<Rightarrow> ''http_'' @ string_of_nat (status r))) \<and>
         (\<forall>r' :: 'b response.
            status r' = status r \<and> statusText r' = statusText r \<and>
            json_error r' = json_error r \<longrightarrow> handleErrorResponse r' = handleErrorResponse r)"
proof -
  let ?e = "request_catch (handleErrorResponse r)"
  note defs = handleErrorResponse_def request_catch_def Let_def AutofillerError_def
  have "\<exists>w'. request config endpoint options w = Some (Inl ?e, w')"
    using request_not_ok[OF assms(1-4), of endpoint options] by simp
  moreover have "status r = 401 \<longrightarrow> cls ?e = AuthenticationError_class"
    using assms(5) by (cases "json_error r") (simp_all add: defs AuthenticationError_def)
  moreover have "status r = 429 \<longrightarrow> cls ?e = RateLimitError_class"
    using assms(5) by (cases "json_error r") (simp_all add: defs RateLimitError_def)
  moreover have "status r = 400 \<or> status r = 422 \<longrightarrow> cls ?e = ValidationError_class"
    using assms(5) by (cases "json_error r") (auto simp: defs ValidationError_def)
  moreover have "status r \<notin> {401, 429, 400, 422} \<longrightarrow>
              cls ?e = AutofillerError_class \<and>
              message ?e =
                (case json_error r of
                   JSON_value d \<Rightarrow> (case data_message d of None \<Rightarrow> statusText r | Some m \<Rightarrow> m)
                 | _ \<Rightarrow> statusText r) \<and>
              code ?e =
                (case json_error r of
                   JSON_value d \<Rightarrow>
                     (case data_code d of
                        None \<Rightarrow> ''http_'' @ string_of_nat (status r)
                      | Some c \<Rightarrow> c)
                 | _ \<Rightarrow> ''http_'' @ string_of_nat (status r))"
    using assms(5)
    by (cases "json_error r") (auto simp: defs nullish_coalesce_def split: option.splits)
  moreover have "\<forall>r' :: 'b response.
              status r' = status r \<and> statusText r' = statusText r \<and>
              json_error r' = json_error r \<longrightarrow> handleErrorResponse r' = handleErrorResponse r"
    using handleErrorResponse_cong by blast
  ultimately show ?thesis by blast
qed

lemma error_classification_example:
  "map_option fst
     (request example_config ''/domain-packs'' get_options
        (world_at 0 [responds 120 (error_response 503 ''Service Unavailable'' Not_JSON)])) =
   Some (Inl (AutofillerError ''Service Unavailable'' ''http_503'')) \<and>
   map_option fst
     (request example_config ''/extract'' get_options
        (world_at 0 [responds 60 (error_response 401 ''Unauthorized''
           (JSON_value \<lparr>data_code = Some ''bad_key'', data_message = None\<rparr>))])) =
   Some (Inl (AuthenticationError (Some ''Unauthorized'')))"
proof -
  let ?r1 = "error_response 503 ''Service Unavailable'' Not_JSON"
  let ?r2 = "error_response 401 ''Unauthorized''
               (JSON_value \<lparr>data_code = Some ''bad_key'', data_message = None\<rparr>)"
  have a1: "replies (world_at 0 [responds 120 ?r1]) = responds 120 ?r1 # []"
    and a2: "int (latency (responds 120 ?r1)) < timeout example_config"
    and a3: "settled (responds 120 ?r1) = Inr ?r1"
    and a4: "\<not> ok ?r1" and a5: "json_error ?r1 \<noteq> JSON_null"
    by (simp_all add: world_at_def responds_def error_response_def example_config_def
          DEFAULT_TIMEOUT_def ok_def)
  have b1: "replies (world_at 0 [responds 60 ?r2]) = responds 60 ?r2 # []"
    and b2: "int (latency (responds 60 ?r2)) < timeout example_config"
    and b3: "settled (responds 60 ?r2) = Inr ?r2"
    and b4: "\<not> ok ?r2" and b5: "json_error ?r2 \<noteq> JSON_null"
    by (simp_all add: world_at_def responds_def error_response_def example_config_def
          DEFAULT_TIMEOUT_def ok_def)
  have e1: "request_catch (handleErrorResponse ?r1) =
              AutofillerError ''Service Unavailable'' ''http_503''"
    by (simp add: handleErrorResponse_def request_catch_def error_response_def
          nullish_coalesce_def string_of_nat.simps digit_char_def)
  have e2: "request_catch (handleErrorResponse ?r2) =
              AuthenticationError (Some ''Unauthorized'')"
    by (simp add: handleErrorResponse_def request_catch_def error_response_def
          nullish_coalesce_def)
  from error_classification
         [OF a1 a2 a3 a4 a5, of "''/domain-packs''" get_options, THEN conjunct1]
       error_classification
         [OF b1 b2 b3 b4 b5, of "''/extract''" get_options, THEN conjunct1]
  show ?thesis
    unfolding e1 e2 by auto
qed

text \<open>
  C1, where the code fails it. The claim gives an \<^verbatim>\<open>AuthenticationError\<close> for every
  response with status 401. For a response with status 401 whose body is the JSON text
  \<^verbatim>\<open>null\<close>, \<^verbatim>\<open>handleErrorResponse\<close> assigns \<^verbatim>\<open>null\<close> to \<^verbatim>\<open>errorData\<close> and
  throws a \<^verbatim>\<open>TypeError\<close> on reading \<^verbatim>\<open>errorData.message\<close>, before it looks at the
  status; \<^verbatim>\<open>request\<close> then throws the generic \<^verbatim>\<open>AutofillerError\<close> with code
  \<^verbatim>\<open>request_failed\<close>. The same response with a body that is not JSON gives the
  \<^verbatim>\<open>AuthenticationError\<close>.
\<close>

theorem error_classification_null_body:
  "map_option fst
     (request example_config ''/extract'' get_options
        (world_at 0 [responds 60 (error_response 401 ''Unauthorized'' JSON_null)])) =
   Some (Inl \<lparr>cls = AutofillerError_class, name = ''AutofillerError'',
              message = ''Request failed: Cannot read properties of null (reading ''
                          @ [CHR 0x27] @ ''message'' @ [CHR 0x27] @ '')'',
              code = ''request_failed''\<rparr>) \<and>
   map_option fst
     (request example_config ''/extract'' get_options
        (world_at 0 [responds 60 (error_response 401 ''Unauthorized'' Not_JSON)])) =
   Some (Inl \<lparr>cls = AuthenticationError_class, name = ''AuthenticationError'',
              message = ''Unauthorized'', code = ''authentication_error''\<rparr>)"
  by (simp add: request_def fetch_def request_catch_def handleErrorResponse_def
        null_property_TypeError_def world_at_def responds_def error_response_def
        example_config_def DEFAULT_TIMEOUT_def ok_def AutofillerError_def
        AuthenticationError_def nullish_coalesce_def Let_def)

text \<open>
  A body other than \<^verbatim>\<open>null\<close>. For a response with status 401, 429, 400 or 422 the
  code of the thrown error is the fixed code of its class (\<^verbatim>\<open>authentication_error\<close>,
  \<^verbatim>\<open>rate_limit_exceeded\<close>, \<^verbatim>\<open>validation_error\<close>), whatever \<^verbatim>\<open>code\<close> the body
  carries; its message is the \<^verbatim>\<open>message\<close> of the body, or the status text. For every
  other status outside 200..299 a \<^verbatim>\<open>code\<close> in the body is the code of the thrown
  error.
\<close>

lemma classified_error_codes:
  fixes r :: "'a response" and w :: "'a world"
  assumes "replies w = rp # rest" and "int (latency rp) < timeout config"
    and "settled rp = Inr r" and "\<not> ok r" and "json_error r \<noteq> JSON_null"
  shows "(\<exists>w'. request config endpoint options w =
                  Some (Inl (request_catch (handleErrorResponse r)), w')) \<and>
         (status r = 401 \<longrightarrow>
            code (request_catch (handleErrorResponse r)) = ''authentication_error'') \<and>
         (status r = 429 \<longrightarrow>
            code (request_catch (handleErrorResponse r)) = ''rate_limit_exceeded'') \<and>
         (status r = 400 \<or> status r = 422 \<longrightarrow>
            code (request_catch (handleErrorResponse r)) = ''validation_error'') \<and>
         (status r \<in> {401, 429, 400, 422} \<longrightarrow>
            message (request_catch (handleErrorResponse r)) =
              (case json_error r of
                 JSON_value d \<Rightarrow> (case data_message d of None \<Rightarrow> statusText r | Some m \<Rightarrow> m)
               | _ \<Rightarrow> statusText r) \<and>
            (\<forall>d c. json_error r = JSON_value d \<longrightarrow>
               handleErrorResponse (r\<lparr>json_error := JSON_value (d\<lparr>data_code := c\<rparr>)\<rparr>) =
               handleErrorResponse r)) \<and>
         (status r \<notin> {401, 429, 400, 422} \<longrightarrow>
            (\<forall>d c. json_error r = JSON_value d \<and> data_code d = Some c \<longrightarrow>
               code (request_catch (handleErrorResponse r)) = c))"
proof -
  let ?e = "request_catch (handleErrorResponse r)"
  note defs = handleErrorResponse_def request_catch_def Let_def AutofillerError_def
  have "\<exists>w'. request config endpoint options w = Some (Inl ?e, w')"
    using request_not_ok[OF assms(1-4), of endpoint options] by simp
  moreover have "status r = 401 \<longrightarrow> code ?e = ''authentication_error''"
    using assms(5) by (cases "json_error r") (simp_all add: defs AuthenticationError_def)
  moreover have "status r = 429 \<longrightarrow> code ?e = ''rate_limit_exceeded''"
    using assms(5) by (cases "json_error r") (simp_all add: defs RateLimitError_def)
  moreover have "status r = 400 \<or> status r = 422 \<longrightarrow> code ?e = ''validation_error''"
    using assms(5) by (cases "json_error r") (auto simp: defs ValidationError_def)
  moreover have "status r \<in> {401, 429, 400, 422} \<longrightarrow>
            message ?e =
              (case json_error r of
                 JSON_value d \<Rightarrow> (case data_message d of None \<Rightarrow> statusText r | Some m \<Rightarrow> m)
               | _ \<Rightarrow> statusText r)"
    using assms(5)
    by (cases "json_error r")
       (auto simp: defs ValidationError_def AuthenticationError_def RateLimitError_def
          nullish_coalesce_def split: option.splits)
  moreover have "status r \<in> {401, 429, 400, 422} \<longrightarrow>
            (\<forall>d c. json_error r = JSON_value d \<longrightarrow>
               handleErrorResponse (r\<lparr>json_error := JSON_value (d\<lparr>data_code := c\<rparr>)\<rparr>) =
               handleErrorResponse r)"
    by (auto simp: handleErrorResponse_def Let_def)
  moreover have "status r \<notin> {401, 429, 400, 422} \<longrightarrow>
            (\<forall>d c. json_error r = JSON_value d \<and> data_code d = Some c \<longrightarrow> code ?e = c)"
    by (auto simp: defs nullish_coalesce_def)
  ultimately show ?thesis by blast
qed

lemma classified_error_codes_example:
  "map_option fst
     (request example_config ''/extract'' get_options
        (world_at 0 [responds 35 (error_response 429 ''Too Many Requests''
           (JSON_value \<lparr>data_code = Some ''quota'', data_message = Some ''slow down''\<rparr>))])) =
   Some (Inl \<lparr>cls = RateLimitError_class, name = ''RateLimitError'', message = ''slow down'',
              code = ''rate_limit_exceeded''\<rparr>)"
proof -
  let ?r = "error_response 429 ''Too Many Requests''
              (JSON_value \<lparr>data_code = Some ''quota'', data_message = Some ''slow down''\<rparr>)"
  have a1: "replies (world_at 0 [responds 35 ?r]) = responds 35 ?r # []"
    and a2: "int (latency (responds 35 ?r)) < timeout example_config"
    and a3: "settled (responds 35 ?r) = Inr ?r"
    and a4: "\<not> ok ?r" and a5: "json_error ?r \<noteq> JSON_null"
    by (simp_all add: world_at_def responds_def error_response_def example_config_def
          DEFAULT_TIMEOUT_def ok_def)
  have e: "request_catch (handleErrorResponse ?r) =
             \<lparr>cls = RateLimitError_class, name = ''RateLimitError'', message = ''slow down'',
              code = ''rate_limit_exceeded''\<rparr>"
    by (simp add: handleErrorResponse_def request_catch_def error_response_def
          nullish_coalesce_def RateLimitError_def AutofillerError_def)
  from classified_error_codes[OF a1 a2 a3 a4 a5, of "''/extract''" get_options, THEN conjunct1]
  show ?thesis
    unfolding e by auto
qed

text \<open>
  C10, where the code fails it. The claim gives the fixed code of the kind for every
  response with status 401, 429, 400 or 422. For a response with status 429, or 422,
  whose body is the JSON text \<^verbatim>\<open>null\<close>, the \<^verbatim>\<open>TypeError\<close> of
  \<^verbatim>\<open>handleErrorResponse\<close> is wrapped by \<^verbatim>\<open>request\<close>, and the code of the thrown
  error is \<^verbatim>\<open>request_failed\<close>, not \<^verbatim>\<open>rate_limit_exceeded\<close> or
  \<^verbatim>\<open>validation_error\<close>.
\<close>

theorem classified_error_codes_null_body:
  "map_option fst
     (request example_config ''/extract'' get_options
        (world_at 0 [responds 35 (error_response 429 ''Too Many Requests'' JSON_null)])) =
   Some (Inl \<lparr>cls = AutofillerError_class, name = ''AutofillerError'',
              message = ''Request failed: Cannot read properties of null (reading ''
                          @ [CHR 0x27] @ ''message'' @ [CHR 0x27] @ '')'',
              code = ''request_failed''\<rparr>) \<and>
   map_option fst
     (request example_config ''/jobs/job_1'' get_options
        (world_at 0 [responds 35 (error_response 422 ''Unprocessable Entity'' JSON_null)])) =
   Some (Inl \<lparr>cls = AutofillerError_class, name = ''AutofillerError'',
              message = ''Request failed: Cannot read properties of null (reading ''
                          @ [CHR 0x27] @ ''message'' @ [CHR 0x27] @ '')'',
              code = ''request_failed''\<rparr>)"
  by (simp add: request_def fetch_def request_catch_def handleErrorResponse_def
        null_property_TypeError_def world_at_def responds_def error_response_def
        example_config_def DEFAULT_TIMEOUT_def ok_def AutofillerError_def Let_def)

text \<open>A reply that comes before the timeout settles \<^verbatim>\<open>fetch\<close>.\<close>

lemma request_settled:
  assumes "replies w = rp # rest" and "int (latency rp) < timeout config"
  shows "fetch \<lparr>url = baseUrl config @ endpoint, fetch_method = method' options,
                 fetch_headers = requestHeaders config options,
                 fetch_body = requestBody options, abort_after = timeout config\<rparr> w =
         Some (settled rp,
               w\<lparr>replies := rest,
                 sent := sent w @ [(now w, \<lparr>url = baseUrl config @ endpoint,
                     fetch_method = method' options,
                     fetch_headers = requestHeaders config options,
                     fetch_body = requestBody options,
                     abort_after = timeout config\<rparr>)],
                 now := now w + int (latency rp)\<rparr>)"
  using assms by (simp add: fetch_def Let_def)

text \<open>
  C4, as the code has it. The client has no \<^verbatim>\<open>ProtocolError\<close>: when the body of a
  response with a status in 200..299 is not JSON, the \<^verbatim>\<open>SyntaxError\<close> of
  \<^verbatim>\<open>response.json()\<close> reaches the \<^verbatim>\<open>catch\<close> block of \<^verbatim>\<open>request\<close>, which throws
  the generic \<^verbatim>\<open>AutofillerError\<close> with code \<^verbatim>\<open>request_failed\<close> and the message
  \<^verbatim>\<open>Request failed: \<close> followed by the parser's message.
\<close>

theorem malformed_success_body:
  fixes r :: "'a response" and w :: "'a world"
  assumes "replies w = rp # rest" and "int (latency rp) < timeout config"
    and "settled rp = Inr r" and "ok r"
    and "json_T r = Inl (Thrown_Error ''SyntaxError'' msg)"
  shows "\<exists>w'. request config endpoint options w =
           Some (Inl \<lparr>cls = AutofillerError_class, name = ''AutofillerError'',
                      message = ''Request failed: '' @ msg, code = ''request_failed''\<rparr>, w')"
  using assms
  by (simp add: request_def request_settled request_catch_def AutofillerError_def)

theorem malformed_success_body_witness:
  "map_option fst
     (request example_config ''/health'' get_options
        (world_at 0 [responds 80 (malformed_response ''Unexpected token < in JSON'')])) =
   Some (Inl (AutofillerError ''Request failed: Unexpected token < in JSON'' ''request_failed''))"
  using malformed_success_body
          [of "world_at 0 [responds 80 (malformed_response ''Unexpected token < in JSON'')]"
              "responds 80 (malformed_response ''Unexpected token < in JSON'')" "[]"
              example_config "malformed_response ''Unexpected token < in JSON''"
              "''Unexpected token < in JSON''" "''/health''" get_options]
  by (auto simp: world_at_def responds_def malformed_response_def example_config_def
        DEFAULT_TIMEOUT_def ok_def AutofillerError_def)

text \<open>
  The error for a malformed body is of the generic class, and a network failure with the
  same message gives the very same error: no type or tag tells the two apart.
\<close>

theorem malformed_success_body_counterexample:
  "map_option fst
     (request example_config ''/health'' get_options
        (world_at 0 [responds 80 (malformed_response ''Unexpected token < in JSON'')])) =
   Some (Inl \<lparr>cls = AutofillerError_class, name = ''AutofillerError'',
              message = ''Request failed: Unexpected token < in JSON'',
              code = ''request_failed''\<rparr>) \<and>
   map_option fst
     (request example_config ''/health'' get_options
        (world_at 0 [rejects 80 (Thrown_Error ''TypeError'' ''Unexpected token < in JSON'')
                       :: unit reply])) =
   Some (Inl \<lparr>cls = AutofillerError_class, name = ''AutofillerError'',
              message = ''Request failed: Unexpected token < in JSON'',
              code = ''request_failed''\<rparr>)"
  by (simp add: request_def fetch_def request_catch_def world_at_def responds_def rejects_def
        malformed_response_def example_config_def DEFAULT_TIMEOUT_def ok_def AutofillerError_def
        Let_def)

text \<open>
  C5, as the code has it. The client has no \<^verbatim>\<open>Timeout\<close> class: a request whose reply
  does not come before the configured timeout is aborted, and \<^verbatim>\<open>request\<close> throws the
  generic \<^verbatim>\<open>AutofillerError\<close> with code \<^verbatim>\<open>timeout\<close> and message
  \<^verbatim>\<open>Request timed out\<close>, once the timeout has passed.
\<close>

theorem request_timeout:
  fixes w :: "'a world"
  assumes "replies w = rp # rest" and "timeout config \<le> int (latency rp)"
  shows "\<exists>w'. request config endpoint options w =
           Some (Inl \<lparr>cls = AutofillerError_class, name = ''AutofillerError'',
                      message = ''Request timed out'', code = ''timeout''\<rparr>, w') \<and>
           now w' = now w + max 0 (timeout config) \<and> replies w' = rest"
  using assms
  by (simp add: request_def fetch_def request_catch_def AutofillerError_def Let_def)

theorem request_timeout_witness:
  "map_option fst
     (request example_config ''/extract'' get_options
        (world_at 0 [responds 45000 (success_response ())])) =
   Some (Inl (AutofillerError ''Request timed out'' ''timeout''))"
  using request_timeout
          [of "world_at 0 [responds 45000 (success_response ())]"
              "responds 45000 (success_response ())" "[]" example_config "''/extract''"
              get_options]
  by (auto simp: world_at_def responds_def example_config_def DEFAULT_TIMEOUT_def
        AutofillerError_def)

text \<open>
  The error for a timeout is of the generic class, and a response of the server with
  status 504 and the same code and message gives the very same error.
\<close>

theorem request_timeout_counterexample:
  "map_option fst
     (request example_config ''/extract'' get_options
        (world_at 0 [responds 45000 (success_response ())])) =
   Some (Inl \<lparr>cls = AutofillerError_class, name = ''AutofillerError'',
              message = ''Request timed out'', code = ''timeout''\<rparr>) \<and>
   map_option fst
     (request example_config ''/extract'' get_options
        (world_at 0 [responds 50 (error_response 504 ''Gateway Timeout''
           (JSON_value
              \<lparr>data_code = Some ''timeout'', data_message = Some ''Request timed out''\<rparr>))])) =
   Some (Inl \<lparr>cls = AutofillerError_class, name = ''AutofillerError'',
              message = ''Request timed out'', code = ''timeout''\<rparr>)"
  by (simp add: request_def fetch_def request_catch_def world_at_def responds_def
        success_response_def error_response_def example_config_def DEFAULT_TIMEOUT_def ok_def
        AutofillerError_def handleErrorResponse_def nullish_coalesce_def Let_def)

subsection \<open>Construction and request building\<close>

text \<open>
  C7. Validation at construction time throws a \<^verbatim>\<open>ValidationError\<close> before any request
  is sent: the constructor throws it for a missing or empty API key, and
  \<^verbatim>\<open>buildFormData\<close> throws it for a buffer with no file name (or an empty one), so that
  \<^verbatim>\<open>extract\<close> and \<^verbatim>\<open>extractAsync\<close> fail with it and leave the world as it was: no
  call of \<^verbatim>\<open>fetch\<close> is logged and no reply is taken.
\<close>

theorem construction_time_validation:
  fixes options :: "'z ExtractOptions_scheme" and aoptions :: "'y ExtractAsyncOptions_scheme"
    and w :: "'d ApiExtractionResult world" and wa :: "ApiJobHandle world"
  shows "(cfg_apiKey c = None \<or> cfg_apiKey c = Some [] \<longrightarrow>
            AutofillerClient c = Inl (ValidationError ''API key is required'')) \<and>
         (file' options = Buffer b \<and> (filename options = None \<or> filename options = Some []) \<longrightarrow>
            buildFormData pf options =
              Inl (ValidationError ''filename is required when file is a Buffer'') \<and>
            extract' pf config options w =
              Some (Inl (ValidationError ''filename is required when file is a Buffer''), w)) \<and>
         (file' aoptions = Buffer b' \<and>
          (filename aoptions = None \<or> filename aoptions = Some []) \<longrightarrow>
            extractAsync pf config aoptions wa =
              Some (Inl (ValidationError ''filename is required when file is a Buffer''), wa)) \<and>
         cls (ValidationError msg) = ValidationError_class"
proof -
  have key: "cfg_apiKey c = None \<or> cfg_apiKey c = Some [] \<longrightarrow>
            AutofillerClient c = Inl (ValidationError ''API key is required'')"
    by (auto simp: AutofillerClient_def truthy_def)
  have build: "buildFormData pf opts =
                 Inl (ValidationError ''filename is required when file is a Buffer'')"
    if "file' opts = Buffer bs" and "filename opts = None \<or> filename opts = Some []"
    for opts :: "'x ExtractOptions_scheme" and bs
    using that
    by (auto simp: buildFormData_def buildFormData_body_def buildFormData_start_def
          append_file_def truthy_def)
  have sync: "file' options = Buffer b \<and>
              (filename options = None \<or> filename options = Some []) \<longrightarrow>
            buildFormData pf options =
              Inl (ValidationError ''filename is required when file is a Buffer'') \<and>
            extract' pf config options w =
              Some (Inl (ValidationError ''filename is required when file is a Buffer''), w)"
    using build[of options b] by (simp add: extract'_def)
  have async: "file' aoptions = Buffer b' \<and>
          (filename aoptions = None \<or> filename aoptions = Some []) \<longrightarrow>
            extractAsync pf config aoptions wa =
              Some (Inl (ValidationError ''filename is required when file is a Buffer''), wa)"
    using build[of aoptions b'] by (simp add: extractAsync_def)
  have "cls (ValidationError msg) = ValidationError_class"
    by (simp add: ValidationError_def AutofillerError_def)
  with key sync async show ?thesis by blast
qed

theorem construction_time_validation_witness:
  "AutofillerClient \<lparr>cfg_apiKey = Some [], cfg_baseUrl = None, cfg_timeout = None,
                      cfg_maxRetries = None\<rparr> =
     Inl (ValidationError ''API key is required'') \<and>
   extract' example_platform example_config (buffer_options None)
     (world_at 0 [responds 10 (success_response bare_result)]) =
     Some (Inl (ValidationError ''filename is required when file is a Buffer''),
           world_at 0 [responds 10 (success_response bare_result)]) \<and>
   extractAsync example_platform example_config
     (buffer_async_options (Some [])) (world_at 0 []) =
     Some (Inl (ValidationError ''filename is required when file is a Buffer''), world_at 0 [])"
  using construction_time_validation
          [of "\<lparr>cfg_apiKey = Some [], cfg_baseUrl = None, cfg_timeout = None,
                 cfg_maxRetries = None\<rparr>"
              "buffer_options None" "[0x25, 0x50, 0x44, 0x46]" example_platform example_config
              "world_at 0 [responds 10 (success_response bare_result)]"
              "buffer_async_options (Some [])"
              "[0x25, 0x50, 0x44, 0x46]" "world_at 0 []" "[]"]
  by (simp add: buffer_options_def buffer_async_options_def)

text \<open>No statement of \<^verbatim>\<open>buildFormData\<close> writes to the caller's options.\<close>

lemma formData_append_options [simp]:
  "options_obj (formData_append nm v fn s) = options_obj s"
  by (simp add: formData_append_def)

lemma extractOptions_set_options [simp]:
  "options_obj (extractOptions_set k v s) = options_obj s"
  by (simp add: extractOptions_set_def)

lemma append_file_options:
  "append_file pf s = Inr s' \<Longrightarrow> options_obj s' = options_obj s"
  by (auto simp: append_file_def Let_def split: file_input.splits if_splits)

lemma append_domain_pack_options [simp]:
  "options_obj (append_domain_pack s) = options_obj s"
  by (simp add: append_domain_pack_def)

lemma set_include_confidence_options [simp]:
  "options_obj (set_include_confidence s) = options_obj s"
  by (simp add: set_include_confidence_def split: option.split)

lemma set_include_bounding_boxes_options [simp]:
  "options_obj (set_include_bounding_boxes s) = options_obj s"
  by (simp add: set_include_bounding_boxes_def split: option.split)

lemma set_language_options [simp]:
  "options_obj (set_language s) = options_obj s"
  by (simp add: set_language_def)

lemma append_options_options [simp]:
  "options_obj (append_options s) = options_obj s"
  by (simp add: append_options_def)

lemma buildFormData_body_options:
  "options_obj (snd (buildFormData_body pf s)) = options_obj s"
proof (cases "append_file pf s")
  case (Inl e)
  then show ?thesis by (simp add: buildFormData_body_def)
next
  case (Inr s1)
  then show ?thesis
    using append_file_options[OF Inr] by (simp add: buildFormData_body_def Let_def)
qed

text \<open>
  C9. For every options object (any file input, any combination of the optional fields,
  with or without the fields of \<^verbatim>\<open>ExtractAsyncOptions\<close>), the options object in the
  state \<^verbatim>\<open>buildFormData\<close> leaves, whether it returns or throws, is the one it was
  called with.
\<close>

theorem buildFormData_keeps_options:
  fixes options :: "'z ExtractOptions_scheme"
  shows "options_obj (snd (buildFormData_body pf (buildFormData_start options))) = options \<and>
         buildFormData pf options = fst (buildFormData_body pf (buildFormData_start options))"
  using buildFormData_body_options[of pf "buildFormData_start options"]
  by (simp add: buildFormData_start_def buildFormData_def)

subsection \<open>Result normalizer\<close>

text \<open>
  C8. Normalizing a wire extraction result with all optional fields present copies every
  field into the client model: id, status, domain pack, data, confidence, bounding boxes
  and warnings as they are, the numbers and the model version of the metadata as they are,
  and the creation timestamp as the \<^verbatim>\<open>Date\<close> made of its string. With all optional
  fields absent it yields a result with \<^verbatim>\<open>pages = 0\<close>, \<^verbatim>\<open>processingTimeMs = 0\<close>,
  \<^verbatim>\<open>modelVersion = "unknown"\<close> and the current time as creation date.
\<close>

theorem normalize_extraction_result:
  fixes response :: "'d ApiExtractionResult"
  shows "(r_confidence response = Some c \<and> r_bounding_boxes response = Some bb \<and>
          r_metadata response =
            Some \<lparr>m_pages = Some p, m_processing_time_ms = Some ms, m_model_version = Some v,
                   m_created_at = Some s\<rparr> \<and>
          r_warnings response = Some ws \<longrightarrow>
            transformExtractionResult pf t response =
              \<lparr>result_id = r_id response, result_status = r_status response,
               result_domainPack = r_domain_pack response, data = r_data response,
               confidence = Some c, boundingBoxes = Some bb,
               metadata = \<lparr>pages = p, processingTimeMs = ms, modelVersion = v,
                            createdAt = new_Date pf (Inl s)\<rparr>,
               warnings = Some ws\<rparr>) \<and>
         (r_confidence response = None \<and> r_bounding_boxes response = None \<and>
          (r_metadata response = None \<or>
           r_metadata response =
             Some \<lparr>m_pages = None, m_processing_time_ms = None, m_model_version = None,
                    m_created_at = None\<rparr>) \<and>
          r_warnings response = None \<longrightarrow>
            transformExtractionResult pf t response =
              \<lparr>result_id = r_id response, result_status = r_status response,
               result_domainPack = r_domain_pack response, data = r_data response,
               confidence = None, boundingBoxes = None,
               metadata = \<lparr>pages = 0, processingTimeMs = 0, modelVersion = ''unknown'',
                            createdAt = new_Date pf (Inr t)\<rparr>,
               warnings = None\<rparr>)"
  by (auto simp: transformExtractionResult_def nullish_coalesce_def)

theorem normalize_extraction_result_witness:
  "transformExtractionResult example_platform 1705300000000 full_result =
     \<lparr>result_id = ''ext_1'', result_status = ''completed'',
      result_domainPack = ''invoice-standard'', data = [(''invoice_number'', ''INV-001'')],
      confidence = Some [''invoice_number'' \<mapsto> 0.5],
      boundingBoxes =
        Some [''invoice_number'' \<mapsto>
                \<lparr>box_page = 1, box_x = 10, box_y = 20, box_width = 100, box_height = 12\<rparr>],
      metadata = \<lparr>pages = 2, processingTimeMs = 840, modelVersion = ''v3'',
                   createdAt = Date 1705276800000\<rparr>,
      warnings = Some [''low resolution'']\<rparr> \<and>
   transformExtractionResult example_platform 1705300000000 bare_result =
     \<lparr>result_id = ''ext_2'', result_status = ''partial'', result_domainPack = ''receipt'',
      data = [], confidence = None, boundingBoxes = None,
      metadata = \<lparr>pages = 0, processingTimeMs = 0, modelVersion = ''unknown'',
                   createdAt = Date 1705300000000\<rparr>,
      warnings = None\<rparr>"
  using normalize_extraction_result
          [of full_result "[''invoice_number'' \<mapsto> 0.5]"
              "[''invoice_number'' \<mapsto>
                  \<lparr>box_page = 1, box_x = 10, box_y = 20, box_width = 100, box_height = 12\<rparr>]"
              2 840 "''v3''" "''2024-01-15T00:00:00Z''" "[''low resolution'']"
              example_platform 1705300000000]
        normalize_extraction_result
          [of bare_result _ _ _ _ _ _ _ example_platform 1705300000000]
  by (simp add: full_result_def bare_result_def new_Date_def example_platform_def
        example_Date_parse_def)

text \<open>
  C6, as the code has it. Normalization has no failure: \<^verbatim>\<open>new Date\<close> of a string that
  does not parse is the invalid date, and that is what the client model carries for an
  unparsable creation timestamp, and for an unparsable completion timestamp that is not the
  empty string; whenever the transport returns a payload, \<^verbatim>\<open>extract\<close> and
  \<^verbatim>\<open>getJob\<close> return its normal form.
\<close>

theorem unparsable_timestamps:
  fixes x :: "'d ApiExtractionResult" and y :: "'d ApiJobStatus"
    and wx :: "'d ApiExtractionResult world" and wy :: "'d ApiJobStatus world"
    and options :: "'z ExtractOptions_scheme"
  shows "(Option.bind (r_metadata x) m_created_at = Some s \<and> Date_parse pf s = None \<longrightarrow>
            createdAt (metadata (transformExtractionResult pf t x)) = Invalid_Date) \<and>
         (Date_parse pf (j_created_at y) = None \<longrightarrow>
            job_createdAt (transformJobStatus pf t y) = Invalid_Date) \<and>
         (j_completed_at y = Some s' \<and> s' \<noteq> [] \<and> Date_parse pf s' = None \<longrightarrow>
            completedAt (transformJobStatus pf t y) = Some Invalid_Date) \<and>
         (buildFormData pf options = Inr fd \<and>
          request config ''/extract''
            \<lparr>method' = POST, body = Some (FormData_input fd),
             headers = Some (getHeaders pf fd), auth = None\<rparr> wx = Some (Inr x, wx') \<longrightarrow>
            extract' pf config options wx =
              Some (Inr (transformExtractionResult pf (now wx') x), wx')) \<and>
         (request config (''/jobs/'' @ job)
            \<lparr>method' = GET, body = None, headers = None, auth = None\<rparr> wy = Some (Inr y, wy') \<longrightarrow>
            getJob pf config job wy = Some (Inr (transformJobStatus pf (now wy') y), wy'))"
  by (auto simp: transformExtractionResult_def transformJobStatus_def new_Date_def truthy_def
        nullish_coalesce_def extract'_def getJob_def)

theorem unparsable_timestamps_witness:
  "map_option fst
     (extract' example_platform example_config path_options
        (world_at 1705300000000 [responds 900 (success_response undated_result)])) =
   Some (Inr \<lparr>result_id = ''ext_2'', result_status = ''partial'', result_domainPack = ''receipt'',
              data = [], confidence = None, boundingBoxes = None,
              metadata = \<lparr>pages = 1, processingTimeMs = 0, modelVersion = ''unknown'',
                           createdAt = Invalid_Date\<rparr>,
              warnings = None\<rparr>) \<and>
   job_createdAt (transformJobStatus example_platform 1705300000900 undated_job) = Invalid_Date \<and>
   completedAt (transformJobStatus example_platform 1705300000900 undated_job) =
     Some Invalid_Date"
  using unparsable_timestamps
          [where x = undated_result and s = "''last Tuesday''" and pf = example_platform
             and t = 1705300000900 and y = undated_job and s' = "''soon''"
             and options = path_options
             and fd = "projr (buildFormData example_platform path_options)"
             and config = example_config
             and wx = "world_at 1705300000000 [responds 900 (success_response undated_result)]"
             and wx' = "snd (the (request example_config ''/extract''
                  \<lparr>method' = POST,
                   body = Some (FormData_input
                            (projr (buildFormData example_platform path_options))),
                   headers = Some (getHeaders example_platform
                            (projr (buildFormData example_platform path_options))),
                   auth = None\<rparr>
                  (world_at 1705300000000 [responds 900 (success_response undated_result)])))"
             and job = "''job_1''"
             and wy = "world_at 1705300000000 [responds 25 (success_response undated_job)]"
             and wy' = "snd (the (request example_config ''/jobs/job_1''
                  \<lparr>method' = GET, body = None, headers = None, auth = None\<rparr>
                  (world_at 1705300000000 [responds 25 (success_response undated_job)])))"]
  by (simp add: undated_result_def undated_job_def job_snapshot_def bare_result_def
        example_platform_def example_Date_parse_def path_options_def buildFormData_def
        buildFormData_body_def buildFormData_start_def append_file_def append_domain_pack_def
        set_include_confidence_def set_include_bounding_boxes_def set_language_def
        append_options_def formData_append_def FormData_append_def extractOptions_set_def
        truthy_def nullish_coalesce_def Let_def request_def fetch_def world_at_def
        responds_def success_response_def example_config_def DEFAULT_TIMEOUT_def ok_def
        transformExtractionResult_def transformJobStatus_def new_Date_def)

text \<open>
  A job status whose two timestamps do not parse: \<^verbatim>\<open>getJob\<close> returns it, with invalid
  dates, and throws nothing.
\<close>

theorem unparsable_timestamps_counterexample:
  "map_option fst
     (getJob example_platform example_config ''job_1''
        (world_at 1705300000000 [responds 25 (success_response undated_job)])) =
   Some (Inr \<lparr>jobId = ''job_1'', job_status = ''processing'', progress = Some 40,
              result = None, error = None, job_createdAt = Invalid_Date,
              completedAt = Some Invalid_Date\<rparr>)"
  by (simp add: getJob_def request_def fetch_def world_at_def responds_def
        success_response_def example_config_def DEFAULT_TIMEOUT_def ok_def Let_def
        transformJobStatus_def new_Date_def truthy_def nullish_coalesce_def undated_job_def
        job_snapshot_def example_platform_def example_Date_parse_def)

subsection \<open>Job poller\<close>

text \<open>What \<^verbatim>\<open>getJob\<close> returns for a reply that carries a job status.\<close>

lemma getJob_payload:
  assumes "replies w = rp # rest" and "int (latency rp) < timeout config"
    and "settled rp = Inr r" and "ok r" and "json_T r = Inr y"
  shows "getJob pf config job w =
           Some (Inr (transformJobStatus pf (now w + int (latency rp)) y),
                 w\<lparr>replies := rest, sent := sent w @ [(now w, status_request config job)],
                   now := now w + int (latency rp)\<rparr>)"
  using assms
  by (simp add: getJob_def request_def fetch_def Let_def status_request_def requestHeaders_def
        requestBody_def nullish_coalesce_def)

lemma pending_replyD:
  assumes "pending_reply config rp"
  obtains r y where "int (latency rp) < timeout config" and "settled rp = Inr r" and "ok r"
    and "json_T r = Inr y"
    and "\<not> (j_status y = ''completed'' \<and> j_result y \<noteq> None)" and "j_status y \<noteq> ''failed''"
  using assms by (auto simp: pending_reply_def split: sum.splits)

lemma transformJobStatus_fields [simp]:
  "job_status (transformJobStatus pf t y) = j_status y"
  "result (transformJobStatus pf t y) = map_option (transformExtractionResult pf t) (j_result y)"
  "error (transformJobStatus pf t y) = j_error y"
  by (simp_all add: transformJobStatus_def)

text \<open>One turn of the loop on a pending reply.\<close>

lemma waitForJob_loop_pending:
  assumes "replies w = rp # rest" and "pending_reply config rp" and "now w - st < mw"
  shows "waitForJob_loop pf config job pollInterval mw st w =
         waitForJob_loop pf config job pollInterval mw st
           (w\<lparr>replies := rest, sent := sent w @ [(now w, status_request config job)],
              now := now w + round_ms pf pollInterval rp\<rparr>)"
proof -
  from assms(2) obtain r y where
    h: "int (latency rp) < timeout config" "settled rp = Inr r" "ok r" "json_T r = Inr y"
       "\<not> (j_status y = ''completed'' \<and> j_result y \<noteq> None)" "j_status y \<noteq> ''failed''"
    by (rule pending_replyD)
  show ?thesis
    using assms(3) h(5,6)
    by (subst waitForJob_loop.simps)
       (auto simp: getJob_payload[OF assms(1) h(1-4)] sleep_def round_ms_def add.assoc)
qed

lemma sum_round_ms_nonneg: "0 \<le> (\<Sum>p\<leftarrow>ps. round_ms pf pollInterval p)"
  by (induction ps) (simp_all add: round_ms_def)

text \<open>The loop runs through a block of pending replies that ends before the deadline.\<close>

lemma waitForJob_loop_pending_block:
  assumes "\<forall>p \<in> set pre. pending_reply config p" and "replies w = pre @ rest"
    and "now w - st + (\<Sum>p\<leftarrow>pre. round_ms pf pollInterval p) < mw"
  shows "\<exists>w1 ts. waitForJob_loop pf config job pollInterval mw st w =
                   waitForJob_loop pf config job pollInterval mw st w1 \<and>
                 replies w1 = rest \<and>
                 now w1 = now w + (\<Sum>p\<leftarrow>pre. round_ms pf pollInterval p) \<and>
                 sent w1 = sent w @ map (\<lambda>t. (t, status_request config job)) ts \<and>
                 length ts = length pre \<and> (\<forall>t \<in> set ts. t - st < mw)"
  using assms
proof (induction pre arbitrary: w)
  case Nil
  show ?case
    by (rule exI[of _ w], rule exI[of _ "[]"]) (use Nil in simp)
next
  case (Cons p ps)
  let ?w2 = "w\<lparr>replies := ps @ rest, sent := sent w @ [(now w, status_request config job)],
               now := now w + round_ms pf pollInterval p\<rparr>"
  have nonneg: "0 \<le> (\<Sum>q\<leftarrow>ps. round_ms pf pollInterval q)"
    by (rule sum_round_ms_nonneg)
  have p0: "0 \<le> round_ms pf pollInterval p"
    by (simp add: round_ms_def)
  have check: "now w - st < mw"
    using Cons.prems(3) nonneg p0 by simp
  have step: "waitForJob_loop pf config job pollInterval mw st w =
              waitForJob_loop pf config job pollInterval mw st ?w2"
    using waitForJob_loop_pending[of w p "ps @ rest" config st mw pf job pollInterval]
      Cons.prems(1,2) check by simp
  have "\<exists>w1 ts. waitForJob_loop pf config job pollInterval mw st ?w2 =
                   waitForJob_loop pf config job pollInterval mw st w1 \<and>
                 replies w1 = rest \<and>
                 now w1 = now ?w2 + (\<Sum>q\<leftarrow>ps. round_ms pf pollInterval q) \<and>
                 sent w1 = sent ?w2 @ map (\<lambda>t. (t, status_request config job)) ts \<and>
                 length ts = length ps \<and> (\<forall>t \<in> set ts. t - st < mw)"
    using Cons.prems by (intro Cons.IH) simp_all
  then obtain w1 ts where
    ih: "waitForJob_loop pf config job pollInterval mw st ?w2 =
           waitForJob_loop pf config job pollInterval mw st w1"
        "replies w1 = rest"
        "now w1 = now ?w2 + (\<Sum>q\<leftarrow>ps. round_ms pf pollInterval q)"
        "sent w1 = sent ?w2 @ map (\<lambda>t. (t, status_request config job)) ts"
        "length ts = length ps" "\<forall>t \<in> set ts. t - st < mw"
    by blast
  show ?case
    by (rule exI[of _ w1], rule exI[of _ "now w # ts"]) (use step ih check in simp)
qed

lemma waitForJob_loop_completed:
  assumes "replies w = rp # rest" and "int (latency rp) < timeout config"
    and "settled rp = Inr r" and "ok r" and "json_T r = Inr y"
    and "j_status y = ''completed''" and "j_result y = Some x" and "now w - st < mw"
  shows "waitForJob_loop pf config job pollInterval mw st w =
           Some (Inr (transformExtractionResult pf (now w + int (latency rp)) x),
                 w\<lparr>replies := rest, sent := sent w @ [(now w, status_request config job)],
                   now := now w + int (latency rp)\<rparr>)"
  using assms(6-8)
  by (subst waitForJob_loop.simps) (simp add: getJob_payload[OF assms(1-5)])

lemma waitForJob_loop_failed:
  assumes "replies w = rp # rest" and "int (latency rp) < timeout config"
    and "settled rp = Inr r" and "ok r" and "json_T r = Inr y"
    and "j_status y = ''failed''" and "now w - st < mw"
  shows "waitForJob_loop pf config job pollInterval mw st w =
           Some (Inl (AutofillerError
                        (case j_error y of
                           None \<Rightarrow> ''Job failed''
                         | Some e \<Rightarrow> (case e_message e of None \<Rightarrow> ''Job failed'' | Some m \<Rightarrow> m))
                        (case j_error y of
                           None \<Rightarrow> ''job_failed''
                         | Some e \<Rightarrow> (case e_code e of None \<Rightarrow> ''job_failed'' | Some c \<Rightarrow> c))),
                 w\<lparr>replies := rest, sent := sent w @ [(now w, status_request config job)],
                   now := now w + int (latency rp)\<rparr>)"
  using assms(6-7)
  by (subst waitForJob_loop.simps)
     (simp add: getJob_payload[OF assms(1-5)] nullish_coalesce_def split: option.splits)

text \<open>The definitions unfolded to run the loop on the example worlds.\<close>

lemmas eval_simps =
  waitForJob_def waitForJob_loop.simps getJob_def request_def fetch_def sleep_def
  requestHeaders_def requestBody_def request_catch_def handleErrorResponse_def
  transformJobStatus_def transformExtractionResult_def new_Date_def truthy_def
  nullish_coalesce_def Let_def ok_def world_at_def responds_def rejects_def
  success_response_def job_snapshot_def job_reply_def bare_result_def example_config_def
  example_platform_def example_Date_parse_def DEFAULT_TIMEOUT_def DEFAULT_BASE_URL_def
  DEFAULT_MAX_RETRIES_def status_request_def AutofillerError_def

text \<open>
  C2, as the code has it. Let the first \<open>N - 1\<close> replies be pending ones, let the
  \<open>N\<close>th poll begin before \<^verbatim>\<open>maxWait\<close> has passed (the rounds before it take less
  than \<^verbatim>\<open>maxWait\<close>), and let its reply carry a job status. If that status is
  \<^verbatim>\<open>completed\<close> and embeds a result, \<^verbatim>\<open>waitForJob\<close> returns the normal form of
  that result; if it is \<^verbatim>\<open>failed\<close>, \<^verbatim>\<open>waitForJob\<close> throws an \<^verbatim>\<open>AutofillerError\<close>
  with the message and code of the job's error, \<^verbatim>\<open>Job failed\<close> and
  \<^verbatim>\<open>job_failed\<close> standing in for what is absent. In both cases it has sent exactly
  \<open>N\<close> status requests, and taken exactly \<open>N\<close> replies. A status \<^verbatim>\<open>completed\<close> with
  no result does not stop the loop.
\<close>

theorem waitForJob_first_terminal:
  fixes w :: "'d ApiJobStatus world"
  assumes "replies w = pre @ rp # rest"
    and "\<forall>p \<in> set pre. pending_reply config p"
    and "(\<Sum>p\<leftarrow>pre. round_ms pf (nullish_coalesce pollInterval 2000) p)
           < nullish_coalesce maxWait 300000"
    and "int (latency rp) < timeout config" and "settled rp = Inr r" and "ok r"
    and "json_T r = Inr y"
  shows "(j_status y = ''completed'' \<and> j_result y = Some x \<longrightarrow>
            (\<exists>w' ts. waitForJob pf config job pollInterval maxWait w =
                        Some (Inr (transformExtractionResult pf (now w') x), w') \<and>
                      replies w' = rest \<and>
                      sent w' = sent w @ map (\<lambda>t. (t, status_request config job)) ts \<and>
                      length ts = Suc (length pre))) \<and>
         (j_status y = ''failed'' \<longrightarrow>
            (\<exists>w' ts. waitForJob pf config job pollInterval maxWait w =
                        Some (Inl (AutofillerError
                                     (case j_error y of
                                        None \<Rightarrow> ''Job failed''
                                      | Some e \<Rightarrow>
                                          (case e_message e of
                                             None \<Rightarrow> ''Job failed''
                                           | Some m \<Rightarrow> m))
                                     (case j_error y of
                                        None \<Rightarrow> ''job_failed''
                                      | Some e \<Rightarrow>
                                          (case e_code e of
                                             None \<Rightarrow> ''job_failed''
                                           | Some c \<Rightarrow> c))), w') \<and>
                      replies w' = rest \<and>
                      sent w' = sent w @ map (\<lambda>t. (t, status_request config job)) ts \<and>
                      length ts = Suc (length pre)))"
proof -
  let ?pi = "nullish_coalesce pollInterval 2000"
  let ?mw = "nullish_coalesce maxWait 300000"
  let ?loop = "waitForJob_loop pf config job ?pi ?mw (now w)"
  let ?req = "status_request config job"
  obtain w1 ts where
    w1: "?loop w = ?loop w1" "replies w1 = rp # rest"
        "now w1 = now w + (\<Sum>p\<leftarrow>pre. round_ms pf ?pi p)"
        "sent w1 = sent w @ map (\<lambda>t. (t, ?req)) ts" "length ts = length pre"
    using waitForJob_loop_pending_block
            [of pre config w "rp # rest" "now w" pf ?pi ?mw job] assms(1-3)
    by auto
  let ?w' = "w1\<lparr>replies := rest, sent := sent w1 @ [(now w1, ?req)],
                 now := now w1 + int (latency rp)\<rparr>"
  have check: "now w1 - now w < ?mw"
    using w1(3) assms(3) by simp
  have log: "sent ?w' = sent w @ map (\<lambda>t. (t, ?req)) (ts @ [now w1])"
    using w1(4) by simp
  have len: "length (ts @ [now w1]) = Suc (length pre)"
    using w1(5) by simp
  have completed: "\<exists>w' ts. waitForJob pf config job pollInterval maxWait w =
                        Some (Inr (transformExtractionResult pf (now w') x), w') \<and>
                      replies w' = rest \<and>
                      sent w' = sent w @ map (\<lambda>t. (t, ?req)) ts \<and>
                      length ts = Suc (length pre)"
    if "j_status y = ''completed''" and "j_result y = Some x"
  proof -
    have "?loop w1 = Some (Inr (transformExtractionResult pf (now ?w') x), ?w')"
      using waitForJob_loop_completed[OF w1(2) assms(4-7) that check, of pf job ?pi]
      by simp
    then have "waitForJob pf config job pollInterval maxWait w =
                 Some (Inr (transformExtractionResult pf (now ?w') x), ?w')"
      using w1(1) by (simp add: waitForJob_def)
    moreover have "replies ?w' = rest" by simp
    ultimately show ?thesis using log len by blast
  qed
  have failed: "\<exists>w' ts. waitForJob pf config job pollInterval maxWait w =
                        Some (Inl (AutofillerError
                                     (case j_error y of
                                        None \<Rightarrow> ''Job failed''
                                      | Some e \<Rightarrow>
                                          (case e_message e of
                                             None \<Rightarrow> ''Job failed''
                                           | Some m \<Rightarrow> m))
                                     (case j_error y of
                                        None \<Rightarrow> ''job_failed''
                                      | Some e \<Rightarrow>
                                          (case e_code e of
                                             None \<Rightarrow> ''job_failed''
                                           | Some c \<Rightarrow> c))), w') \<and>
                      replies w' = rest \<and>
                      sent w' = sent w @ map (\<lambda>t. (t, ?req)) ts \<and>
                      length ts = Suc (length pre)"
    if "j_status y = ''failed''"
  proof -
    have "waitForJob pf config job pollInterval maxWait w =
            Some (Inl (AutofillerError
                         (case j_error y of
                            None \<Rightarrow> ''Job failed''
                          | Some e \<Rightarrow>
                              (case e_message e of None \<Rightarrow> ''Job failed'' | Some m \<Rightarrow> m))
                         (case j_error y of
                            None \<Rightarrow> ''job_failed''
                          | Some e \<Rightarrow>
                              (case e_code e of None \<Rightarrow> ''job_failed'' | Some c \<Rightarrow> c))), ?w')"
      using waitForJob_loop_failed[OF w1(2) assms(4-7) that check, of pf job ?pi] w1(1)
      by (simp add: waitForJob_def)
    moreover have "replies ?w' = rest" by simp
    ultimately show ?thesis using log len by blast
  qed
  from completed failed show ?thesis by blast
qed

theorem waitForJob_first_terminal_witness:
  "waitForJob example_platform example_config ''job_1'' None None
     (world_at 0 [job_reply 25 ''processing'' None,
                  job_reply 30 ''completed'' (Some bare_result)]) =
   Some (Inr \<lparr>result_id = ''ext_2'', result_status = ''partial'', result_domainPack = ''receipt'',
              data = [], confidence = None, boundingBoxes = None,
              metadata = \<lparr>pages = 0, processingTimeMs = 0, modelVersion = ''unknown'',
                           createdAt = Date 2055\<rparr>,
              warnings = None\<rparr>,
         \<lparr>now = 2055, replies = [],
          sent = [(0, status_request example_config ''job_1''),
                  (2025, status_request example_config ''job_1'')]\<rparr>) \<and>
   waitForJob example_platform example_config ''job_1'' (Some 500) None
     (world_at 0 [failed_reply 40 (Some \<lparr>e_code = Some ''bad_pdf'', e_message = None\<rparr>),
                  job_reply 30 ''processing'' None]) =
   Some (Inl (AutofillerError ''Job failed'' ''bad_pdf''),
         \<lparr>now = 40, replies = [job_reply 30 ''processing'' None],
          sent = [(0, status_request example_config ''job_1'')]\<rparr>)"
proof -
  let ?p1 = "job_reply 25 ''processing'' None"
  let ?p2 = "job_reply 30 ''completed'' (Some bare_result)"
  let ?y2 = "job_snapshot ''completed'' (Some bare_result) None
               :: (string \<times> string) list ApiJobStatus"
  let ?w = "world_at 0 [?p1, ?p2]"
  have h1: "replies ?w = [?p1] @ ?p2 # []"
    by (simp add: world_at_def)
  have h2: "\<forall>p \<in> set [?p1]. pending_reply example_config p"
    by (simp add: pending_reply_def eval_simps)
  have h3: "(\<Sum>p\<leftarrow>[?p1]. round_ms example_platform (nullish_coalesce None 2000) p)
              < nullish_coalesce None 300000"
    by (simp add: round_ms_def eval_simps)
  have h4: "int (latency ?p2) < timeout example_config"
    by (simp add: eval_simps)
  have h5: "settled ?p2 = Inr (success_response ?y2)"
    by (simp add: job_reply_def responds_def)
  have h6: "ok (success_response ?y2)"
    by (simp add: eval_simps)
  have h7: "json_T (success_response ?y2) = Inr ?y2"
    by (simp add: success_response_def)
  have h8: "j_status ?y2 = ''completed'' \<and> j_result ?y2 = Some bare_result"
    by (simp add: job_snapshot_def)
  let ?f = "failed_reply 40 (Some \<lparr>e_code = Some ''bad_pdf'', e_message = None\<rparr>)"
  let ?yf = "job_snapshot ''failed'' None (Some \<lparr>e_code = Some ''bad_pdf'', e_message = None\<rparr>)
               :: (string \<times> string) list ApiJobStatus"
  let ?wf = "world_at 0 [?f, job_reply 30 ''processing'' None]"
  have f1: "replies ?wf = [] @ ?f # [job_reply 30 ''processing'' None]"
    by (simp add: world_at_def)
  have f2: "\<forall>p \<in> set []. pending_reply example_config p"
    by simp
  have f3: "(\<Sum>p\<leftarrow>[]. round_ms example_platform (nullish_coalesce (Some 500) 2000) p)
              < nullish_coalesce None 300000"
    by (simp add: nullish_coalesce_def)
  have f4: "int (latency ?f) < timeout example_config"
    by (simp add: failed_reply_def eval_simps)
  have f5: "settled ?f = Inr (success_response ?yf)"
    by (simp add: failed_reply_def responds_def)
  have f6: "ok (success_response ?yf)"
    by (simp add: eval_simps)
  have f7: "json_T (success_response ?yf) = Inr ?yf"
    by (simp add: success_response_def)
  have f8: "j_status ?yf = ''failed''"
    by (simp add: job_snapshot_def)
  from waitForJob_first_terminal[OF h1 h2 h3 h4 h5 h6 h7, of bare_result "''job_1''"] h8
       waitForJob_first_terminal[OF f1 f2 f3 f4 f5 f6 f7, of _ "''job_1''"] f8
  show ?thesis
    by (simp add: failed_reply_def eval_simps)
qed

text \<open>
  The first poll returns \<^verbatim>\<open>completed\<close> with no result: the loop sleeps and polls a
  second time. And when the deadline passes during the first sleep, the second reply, which
  carries the result, is never asked for.
\<close>

theorem waitForJob_first_terminal_counterexample:
  "waitForJob example_platform example_config ''job_1'' None None
     (world_at 0 [job_reply 25 ''completed'' None,
                  job_reply 30 ''completed'' (Some bare_result)]) =
   Some (Inr \<lparr>result_id = ''ext_2'', result_status = ''partial'', result_domainPack = ''receipt'',
              data = [], confidence = None, boundingBoxes = None,
              metadata = \<lparr>pages = 0, processingTimeMs = 0, modelVersion = ''unknown'',
                           createdAt = Date 2055\<rparr>,
              warnings = None\<rparr>,
         \<lparr>now = 2055, replies = [],
          sent = [(0, status_request example_config ''job_1''),
                  (2025, status_request example_config ''job_1'')]\<rparr>) \<and>
   waitForJob example_platform example_config ''job_1'' None (Some 1000)
     (world_at 0 [job_reply 25 ''processing'' None,
                  job_reply 30 ''completed'' (Some bare_result)]) =
   Some (Inl (AutofillerError ''Job timed out waiting for completion'' ''job_timeout''),
         \<lparr>now = 2025, replies = [job_reply 30 ''completed'' (Some bare_result)],
          sent = [(0, status_request example_config ''job_1'')]\<rparr>)"
  by (simp add: eval_simps)

text \<open>A check of the loop that finds the deadline passed ends the wait.\<close>

lemma waitForJob_loop_deadline:
  assumes "\<not> now w - st < mw"
  shows "waitForJob_loop pf config job pollInterval mw st w =
           Some (Inl (AutofillerError ''Job timed out waiting for completion'' ''job_timeout''),
                 w)"
  using assms by (subst waitForJob_loop.simps) simp

lemma waitForJob_loop_times_out:
  assumes "\<forall>p \<in> set rs. pending_reply config p" and "replies w = rs"
    and "st + mw \<le> now w + (\<Sum>p\<leftarrow>rs. round_ms pf pollInterval p)"
  shows "\<exists>w' ts. waitForJob_loop pf config job pollInterval mw st w =
                   Some (Inl (AutofillerError ''Job timed out waiting for completion''
                                ''job_timeout''), w') \<and>
                 st + mw \<le> now w' \<and>
                 sent w' = sent w @ map (\<lambda>t. (t, status_request config job)) ts \<and>
                 (\<forall>t \<in> set ts. t - st < mw) \<and>
                 replies w' = drop (length ts) rs"
  using assms
proof (induction rs arbitrary: w)
  case Nil
  then have "\<not> now w - st < mw" by simp
  from waitForJob_loop_deadline[OF this, of pf config job pollInterval] Nil
  show ?case
    by (intro exI[of _ w] exI[of _ "[]"]) simp
next
  case (Cons p ps)
  show ?case
  proof (cases "now w - st < mw")
    case False
    from waitForJob_loop_deadline[OF this, of pf config job pollInterval] False Cons.prems(2)
    show ?thesis
      by (intro exI[of _ w] exI[of _ "[]"]) simp
  next
    case True
    let ?w2 = "w\<lparr>replies := ps, sent := sent w @ [(now w, status_request config job)],
                 now := now w + round_ms pf pollInterval p\<rparr>"
    have step: "waitForJob_loop pf config job pollInterval mw st w =
                waitForJob_loop pf config job pollInterval mw st ?w2"
      using waitForJob_loop_pending[of w p ps config st mw pf job pollInterval]
        Cons.prems(1,2) True by simp
    have "\<exists>w' ts. waitForJob_loop pf config job pollInterval mw st ?w2 =
                   Some (Inl (AutofillerError ''Job timed out waiting for completion''
                                ''job_timeout''), w') \<and>
                 st + mw \<le> now w' \<and>
                 sent w' = sent ?w2 @ map (\<lambda>t. (t, status_request config job)) ts \<and>
                 (\<forall>t \<in> set ts. t - st < mw) \<and>
                 replies w' = drop (length ts) ps"
      using Cons.prems by (intro Cons.IH) simp_all
    then obtain w' ts where
      ih: "waitForJob_loop pf config job pollInterval mw st ?w2 =
             Some (Inl (AutofillerError ''Job timed out waiting for completion''
                          ''job_timeout''), w')"
          "st + mw \<le> now w'"
          "sent w' = sent ?w2 @ map (\<lambda>t. (t, status_request config job)) ts"
          "\<forall>t \<in> set ts. t - st < mw" "replies w' = drop (length ts) ps"
      by blast
    show ?thesis
      by (rule exI[of _ w'], rule exI[of _ "now w # ts"]) (use step ih True in simp)
  qed
qed

text \<open>
  C3, as the code has it. If every reply is a pending one, and the rounds of the replies
  take at least \<^verbatim>\<open>maxWait\<close> together, \<^verbatim>\<open>waitForJob\<close> throws an
  \<^verbatim>\<open>AutofillerError\<close> with code \<^verbatim>\<open>job_timeout\<close>, at a time when \<^verbatim>\<open>maxWait\<close>
  has passed since the start of the wait, and every status request it has sent was sent
  while less than \<^verbatim>\<open>maxWait\<close> had passed.
\<close>

theorem waitForJob_times_out:
  fixes w :: "'d ApiJobStatus world"
  assumes "\<forall>p \<in> set (replies w). pending_reply config p"
    and "nullish_coalesce maxWait 300000
           \<le> (\<Sum>p\<leftarrow>replies w. round_ms pf (nullish_coalesce pollInterval 2000) p)"
  shows "\<exists>w' ts. waitForJob pf config job pollInterval maxWait w =
                   Some (Inl (AutofillerError ''Job timed out waiting for completion''
                                ''job_timeout''), w') \<and>
                 nullish_coalesce maxWait 300000 \<le> now w' - now w \<and>
                 sent w' = sent w @ map (\<lambda>t. (t, status_request config job)) ts \<and>
                 (\<forall>t \<in> set ts. t - now w < nullish_coalesce maxWait 300000) \<and>
                 replies w' = drop (length ts) (replies w)"
proof -
  obtain w' ts where
    "waitForJob_loop pf config job (nullish_coalesce pollInterval 2000)
       (nullish_coalesce maxWait 300000) (now w) w =
     Some (Inl (AutofillerError ''Job timed out waiting for completion'' ''job_timeout''), w')"
    "now w + nullish_coalesce maxWait 300000 \<le> now w'"
    "sent w' = sent w @ map (\<lambda>t. (t, status_request config job)) ts"
    "\<forall>t \<in> set ts. t - now w < nullish_coalesce maxWait 300000"
    "replies w' = drop (length ts) (replies w)"
    using waitForJob_loop_times_out
            [of "replies w" config w "now w" "nullish_coalesce maxWait 300000" pf
                "nullish_coalesce pollInterval 2000" job] assms
    by auto
  then show ?thesis
    by (intro exI[of _ w'] exI[of _ ts]) (simp add: waitForJob_def)
qed

theorem waitForJob_times_out_witness:
  "waitForJob example_platform example_config ''job_1'' None (Some 4000)
     (world_at 0 [job_reply 25 ''pending'' None, job_reply 25 ''processing'' None,
                  job_reply 25 ''processing'' None]) =
   Some (Inl (AutofillerError ''Job timed out waiting for completion'' ''job_timeout''),
         \<lparr>now = 4050, replies = [job_reply 25 ''processing'' None],
          sent = [(0, status_request example_config ''job_1''),
                  (2025, status_request example_config ''job_1'')]\<rparr>)"
proof -
  let ?w = "world_at 0 [job_reply 25 ''pending'' None, job_reply 25 ''processing'' None,
                  job_reply 25 ''processing'' None]"
  have h1: "\<forall>p \<in> set (replies ?w). pending_reply example_config p"
    by (simp add: pending_reply_def eval_simps)
  have h2: "nullish_coalesce (Some 4000) 300000
              \<le> (\<Sum>p\<leftarrow>replies ?w. round_ms example_platform (nullish_coalesce None 2000) p)"
    by (simp add: round_ms_def eval_simps)
  from waitForJob_times_out[OF h1 h2, of "''job_1''"]
  show ?thesis
    by (simp add: eval_simps)
qed

text \<open>
  The deadline is looked at only before a poll. A poll sent before the deadline whose
  reply comes after it with \<^verbatim>\<open>completed\<close> ends the wait with the result; and a poll
  that fails ends the wait with its own error.
\<close>

theorem waitForJob_times_out_counterexample:
  "waitForJob example_platform example_config ''job_1'' None (Some 10)
     (world_at 0 [job_reply 20 ''completed'' (Some bare_result)]) =
   Some (Inr \<lparr>result_id = ''ext_2'', result_status = ''partial'', result_domainPack = ''receipt'',
              data = [], confidence = None, boundingBoxes = None,
              metadata = \<lparr>pages = 0, processingTimeMs = 0, modelVersion = ''unknown'',
                           createdAt = Date 20\<rparr>,
              warnings = None\<rparr>,
         \<lparr>now = 20, replies = [],
          sent = [(0, status_request example_config ''job_1'')]\<rparr>) \<and>
   waitForJob example_platform example_config ''job_1'' None (Some 5000)
     (world_at 0 [rejects 20 (Thrown_Error ''TypeError'' ''fetch failed''),
                  job_reply 25 ''processing'' None]) =
   Some (Inl (AutofillerError ''Request failed: fetch failed'' ''request_failed''),
         \<lparr>now = 20, replies = [job_reply 25 ''processing'' None],
          sent = [(0, status_request example_config ''job_1'')]\<rparr>)"
  by (simp add: eval_simps)

end
